theory Spec2Isabelle
  imports Complex_Main "HOL-Library.List_Lexorder" "HOL-Library.Char_ord" "HOL-Library.AList"
begin

section \<open>JSON values, Go slices and errors\<close>

text \<open>
  The library marshals requests with \<^verbatim>\<open>encoding/json\<close>. The encoder and the parser
  are Go's standard library, so a JSON document is modelled by its value: objects keep
  their members in the order the encoder emits them (declaration order for a struct,
  sorted keys for a map), numbers are the real number a \<^verbatim>\<open>float64\<close> or an
  \<^verbatim>\<open>int\<close> denotes.
\<close>

datatype json =
    JNull
  | JBool bool
  | JNum real
  | JString string
  | JArray "json list"
  | JObject "(string \<times> json) list"

text \<open>The member of an object under a key; a value that is not an object has none.\<close>

fun jfield :: "string \<Rightarrow> json \<Rightarrow> json option" where
  "jfield k (JObject kv) = map_of kv k"
| "jfield k _ = None"

text \<open>
  A Go slice is \<^verbatim>\<open>nil\<close> or holds elements: \<open>None\<close> is the nil slice, \<open>Some []\<close> the
  empty one. \<^verbatim>\<open>len\<close> is 0 on both, and the encoder writes \<^verbatim>\<open>null\<close> for the first
  and \<^verbatim>\<open>[]\<close> for the second.
\<close>

fun go_len :: "'a list option \<Rightarrow> nat" where
  "go_len None = 0"
| "go_len (Some xs) = length xs"

fun marshal_slice :: "('a \<Rightarrow> json) \<Rightarrow> 'a list option \<Rightarrow> json" where
  "marshal_slice f None = JNull"
| "marshal_slice f (Some xs) = JArray (map f xs)"

text \<open>
  \<^verbatim>\<open>json.Marshal\<close> of a \<^verbatim>\<open>map[string]interface{}\<close>: the members sorted by key. The
  map is an association list, \<^verbatim>\<open>data[k] = v\<close> is \<^const>\<open>AList.update\<close>.
\<close>

definition json_Marshal_map :: "(string \<times> json) list \<Rightarrow> json" where
  "json_Marshal_map data = JObject (sort_key fst data)"

text \<open>
  Errors are values. \<open>LibErr\<close> is an error made outside this repository (the transport,
  the JSON parser, the scanner, a caller's callback), named by its text; \<open>Errorf\<close> is
  \<^verbatim>\<open>fmt.Errorf\<close> with its format and its arguments, \<open>Wrapf\<close> is \<^verbatim>\<open>fmt.Errorf\<close>
  whose format ends in \<^verbatim>\<open>%w\<close> and wraps the cause.
\<close>

datatype fmtarg = ArgInt int | ArgString string | ArgMap "(string \<times> json) list"

datatype error =
    LibErr string
  | Errorf string "fmtarg list"
  | Wrapf string error

text \<open>
  \<^verbatim>\<open>errors.Is\<close>: the error itself or an error it wraps. \<^verbatim>\<open>io.EOF\<close> is the
  library's end-of-input error value.
\<close>

fun errors_Is :: "error \<Rightarrow> error \<Rightarrow> bool" where
  "errors_Is (Wrapf f e) target = (Wrapf f e = target \<or> errors_Is e target)"
| "errors_Is e target = (e = target)"

definition io_EOF :: error where
  "io_EOF = LibErr ''EOF''"

text \<open>
  \<^verbatim>\<open>int(f)\<close> on a \<^verbatim>\<open>float64\<close> drops the fraction. (Outside the range of
  \<^verbatim>\<open>int\<close> Go leaves the result to the implementation; no property below reads it
  there.)
\<close>

definition go_int :: "real \<Rightarrow> int" where
  "go_int f = (if f < 0 then \<lceil>f\<rceil> else \<lfloor>f\<rfloor>)"

text \<open>\<^verbatim>\<open>strings.HasPrefix\<close> and \<^verbatim>\<open>strings.TrimPrefix\<close>.\<close>

definition HasPrefix :: "string \<Rightarrow> string \<Rightarrow> bool" where
  "HasPrefix s pre = (length pre \<le> length s \<and> take (length pre) s = pre)"

definition TrimPrefix :: "string \<Rightarrow> string \<Rightarrow> string" where
  "TrimPrefix s pre = (if HasPrefix s pre then drop (length pre) s else s)"

text \<open>\<^verbatim>\<open>strconv.Itoa\<close>, also \<^verbatim>\<open>fmt.Sprintf("%d", n)\<close>: the decimal digits.\<close>

fun digits_fuel :: "nat \<Rightarrow> nat \<Rightarrow> string" where
  "digits_fuel 0 n = []"
| "digits_fuel (Suc k) n =
     (if n < 10 then [char_of (48 + n)]
      else digits_fuel k (n div 10) @ [char_of (48 + n mod 10)])"

definition Itoa :: "int \<Rightarrow> string" where
  "Itoa i = (if i < 0 then CHR ''-'' # digits_fuel (nat (- i)) (nat (- i))
             else digits_fuel (Suc (nat i)) (nat i))"

section \<open>Client configuration\<close>

record config =
  APIKey :: string
  EUCompliance :: bool

definition defaultConfig :: config where
  "defaultConfig = \<lparr>APIKey = '''', EUCompliance = False\<rparr>"

type_synonym Option = "config \<Rightarrow> config"

record Client =
  cfg :: config

definition NewClient :: "Option list \<Rightarrow> Client" where
  "NewClient options = \<lparr>cfg = fold (\<lambda>option c. option c) options defaultConfig\<rparr>"

definition WithAPIKey :: "string \<Rightarrow> Option" where
  "WithAPIKey apiKey c = c\<lparr>APIKey := apiKey\<rparr>"

definition WithEUCompliance :: Option where
  "WithEUCompliance c = c\<lparr>EUCompliance := True\<rparr>"

section \<open>HTTP requests, responses and the library around them\<close>

text \<open>
  A context is the nil interface value or a live one, named by a label. A request holds
  its context, method, URL, header and body; the body is the JSON document written by
  \<^verbatim>\<open>json.Marshal\<close>. The header keeps its entries in the order they were added:
  \<^verbatim>\<open>Set\<close> replaces the entries of a name, \<^verbatim>\<open>Add\<close> appends one.
\<close>

datatype Context = NilContext | LiveContext string

record http_request =
  Ctx :: Context
  Method :: string
  URL :: string
  Header :: "(string \<times> string) list"
  ReqBody :: json

definition Header_Set :: "string \<Rightarrow> string \<Rightarrow> http_request \<Rightarrow> http_request" where
  "Header_Set k v rq = rq\<lparr>Header := filter (\<lambda>p. fst p \<noteq> k) (Header rq) @ [(k, v)]\<rparr>"

definition Header_Add :: "string \<Rightarrow> string \<Rightarrow> http_request \<Rightarrow> http_request" where
  "Header_Add k v rq = rq\<lparr>Header := Header rq @ [(k, v)]\<rparr>"

definition Header_Values :: "string \<Rightarrow> http_request \<Rightarrow> string list" where
  "Header_Values k rq = map snd (filter (\<lambda>p. fst p = k) (Header rq))"

text \<open>
  \<^verbatim>\<open>http.NewRequestWithContext\<close> fails on a nil context (the method and the URLs of
  this library are constants that parse).
\<close>

definition NewRequestWithContext :: "Context \<Rightarrow> string \<Rightarrow> string \<Rightarrow> json \<Rightarrow> error + http_request" where
  "NewRequestWithContext ctx method url body =
     (if ctx = NilContext then Inl (LibErr ''net/http: nil Context'')
      else Inr \<lparr>Ctx = ctx, Method = method, URL = url, Header = [], ReqBody = body\<rparr>)"

record 'b http_response =
  StatusCode :: int
  Body :: 'b

text \<open>
  What the calls use of the standard library and of the network is a parameter of the
  model: the reply of the network to a request (\<^verbatim>\<open>http.Client.Do\<close>), the bytes and the
  error \<^verbatim>\<open>io.ReadAll\<close> gets from a body, the first JSON value
  \<^verbatim>\<open>json.NewDecoder(body).Decode\<close> reads from it, the value \<^verbatim>\<open>json.Unmarshal\<close>
  parses from bytes, and the run of a \<^verbatim>\<open>bufio.Scanner\<close> over a body: the lines
  \<^verbatim>\<open>Scan\<close> delivers, in order, and the error \<^verbatim>\<open>Err\<close> reports when \<^verbatim>\<open>Scan\<close> has
  returned false. The body type \<open>'b\<close> stays abstract.
\<close>

record 'b golib =
  http_Do :: "http_request \<Rightarrow> error + 'b http_response"
  io_ReadAll :: "'b \<Rightarrow> string \<times> error option"
  json_Decode :: "'b \<Rightarrow> error + json"
  json_Unmarshal :: "string \<Rightarrow> error + json"
  bufio_Scan :: "'b \<Rightarrow> string list \<times> error option"

text \<open>
  The requests put on the network are a log, threaded through every call:
  \<^verbatim>\<open>client.Do(req)\<close> appends the request and returns the reply.
\<close>

definition client_Do :: "'b golib \<Rightarrow> http_request \<Rightarrow> http_request list
    \<Rightarrow> (error + 'b http_response) \<times> http_request list" where
  "client_Do lib rq net = (http_Do lib rq, net @ [rq])"

text \<open>
  Decoding a parsed value into a \<^verbatim>\<open>map[string]interface{}\<close> or a
  \<^verbatim>\<open>[]interface{}\<close>: \<^verbatim>\<open>null\<close> leaves the nil map or slice and is no error, a value
  of another kind is a type error.
\<close>

fun into_map :: "json \<Rightarrow> error + (string \<times> json) list" where
  "into_map (JObject kv) = Inr kv"
| "into_map JNull = Inr []"
| "into_map _ = Inl (LibErr ''json: cannot unmarshal into Go value of type map[string]interface {}'')"

fun into_slice :: "json \<Rightarrow> error + json list option" where
  "into_slice (JArray xs) = Inr (Some xs)"
| "into_slice JNull = Inr None"
| "into_slice _ = Inl (LibErr ''json: cannot unmarshal into Go value of type []interface {}'')"

definition Decode_map :: "'b golib \<Rightarrow> 'b \<Rightarrow> error + (string \<times> json) list" where
  "Decode_map lib body = (case json_Decode lib body of Inl e \<Rightarrow> Inl e | Inr v \<Rightarrow> into_map v)"

definition Decode_into :: "'b golib \<Rightarrow> (json \<Rightarrow> error + 'r) \<Rightarrow> 'b \<Rightarrow> error + 'r" where
  "Decode_into lib into body = (case json_Decode lib body of Inl e \<Rightarrow> Inl e | Inr v \<Rightarrow> into v)"

text \<open>
  Struct fields tagged \<^verbatim>\<open>omitempty\<close> are left out when they hold the zero value: the
  empty string, 0, false, a nil pointer, a slice of length 0.
\<close>

definition omitempty_string :: "string \<Rightarrow> string \<Rightarrow> (string \<times> json) list" where
  "omitempty_string k v = (if v = '''' then [] else [(k, JString v)])"

definition omitempty_int :: "string \<Rightarrow> int \<Rightarrow> (string \<times> json) list" where
  "omitempty_int k v = (if v = 0 then [] else [(k, JNum (of_int v))])"

definition omitempty_bool :: "string \<Rightarrow> bool \<Rightarrow> (string \<times> json) list" where
  "omitempty_bool k v = (if v then [(k, JBool v)] else [])"

text \<open>A slice whose elements have a \<^verbatim>\<open>MarshalJSON\<close> of their own, which may fail.\<close>

fun marshal_all :: "('a \<Rightarrow> error + json) \<Rightarrow> 'a list \<Rightarrow> error + json list" where
  "marshal_all f [] = Inr []"
| "marshal_all f (x # xs) =
     (case f x of
        Inl e \<Rightarrow> Inl e
      | Inr j \<Rightarrow> (case marshal_all f xs of Inl e \<Rightarrow> Inl e | Inr js \<Rightarrow> Inr (j # js)))"

fun marshal_slice_with :: "('a \<Rightarrow> error + json) \<Rightarrow> 'a list option \<Rightarrow> error + json" where
  "marshal_slice_with f None = Inr JNull"
| "marshal_slice_with f (Some xs) =
     (case marshal_all f xs of Inl e \<Rightarrow> Inl e | Inr js \<Rightarrow> Inr (JArray js))"

section \<open>Streaming: doStream\<close>

text \<open>
  The loop of \<^verbatim>\<open>doStream\<close> over the lines the scanner delivers. The callback is a
  closure: it reads and changes a state \<open>'s\<close> of the caller and returns an error or
  nil. The result is \<open>Some r\<close> when the loop body returns \<open>r\<close> from the function, and
  \<open>None\<close> when the lines are used up.
\<close>

fun doStream_scan :: "('s \<Rightarrow> string \<Rightarrow> error option \<times> 's) \<Rightarrow> string list \<Rightarrow> 's
    \<Rightarrow> error option option \<times> 's" where
  "doStream_scan callback [] s = (None, s)"
| "doStream_scan callback (line # rest) s =
     (if HasPrefix line ''data: '' then
        (let data = TrimPrefix line ''data: '' in
         if data = ''[DONE]'' then (Some None, s)
         else (case callback s data of
                 (Some err, s') \<Rightarrow> (Some (Some err), s')
               | (None, s') \<Rightarrow> doStream_scan callback rest s'))
      else doStream_scan callback rest s)"

definition doStream :: "'b golib \<Rightarrow> http_request \<Rightarrow> ('s \<Rightarrow> string \<Rightarrow> error option \<times> 's)
    \<Rightarrow> http_request list \<Rightarrow> 's \<Rightarrow> error option \<times> http_request list \<times> 's" where
  "doStream lib req callback net s =
     (case client_Do lib req net of
        (Inl err, net') \<Rightarrow> (Some err, net', s)
      | (Inr resp, net') \<Rightarrow>
          if StatusCode resp \<noteq> 200
          then (Some (Errorf ''API error with status code: %d'' [ArgInt (StatusCode resp)]), net', s)
          else (case bufio_Scan lib (Body resp) of
                  (lines, scanner_Err) \<Rightarrow>
                    (case doStream_scan callback lines s of
                       (Some r, s') \<Rightarrow> (r, net', s')
                     | (None, s') \<Rightarrow>
                         if (case scanner_Err of None \<Rightarrow> False | Some e \<Rightarrow> errors_Is e io_EOF)
                         then (None, net', s')
                         else if scanner_Err \<noteq> None then (scanner_Err, net', s')
                         else (None, net', s'))))"

section \<open>Classification\<close>

record ClassificationInput =
  ClassificationInput_Text :: string
  ClassificationInput_Image :: string

record ClassificationRequest =
  Classification_Model :: string
  Classification_ClassifierID :: string
  Classification_Input :: "ClassificationInput list option"
  Classification_Labels :: "string list option"

definition ClassificationInput_MarshalJSON :: "ClassificationInput \<Rightarrow> error + json" where
  "ClassificationInput_MarshalJSON c =
     (if ClassificationInput_Image c \<noteq> ''''
      then Inr (json_Marshal_map [(''image'', JString (ClassificationInput_Image c))])
      else Inr (JString (ClassificationInput_Text c)))"

definition NewClassificationInputText :: "string \<Rightarrow> ClassificationInput" where
  "NewClassificationInputText text = \<lparr>ClassificationInput_Text = text, ClassificationInput_Image = ''''\<rparr>"

definition NewClassificationInputImage :: "string \<Rightarrow> ClassificationInput" where
  "NewClassificationInputImage imageURLOrBase64 =
     \<lparr>ClassificationInput_Text = '''', ClassificationInput_Image = imageURLOrBase64\<rparr>"

text \<open>\<^verbatim>\<open>json.Marshal(req)\<close> for a \<^verbatim>\<open>ClassificationRequest\<close>, by its field tags.\<close>

definition ClassificationRequest_json :: "ClassificationRequest \<Rightarrow> error + json" where
  "ClassificationRequest_json r =
     (case marshal_slice_with ClassificationInput_MarshalJSON (Classification_Input r) of
        Inl e \<Rightarrow> Inl e
      | Inr input \<Rightarrow>
          Inr (JObject (omitempty_string ''model'' (Classification_Model r)
                      @ omitempty_string ''classifier_id'' (Classification_ClassifierID r)
                      @ [(''input'', input),
                         (''labels'', marshal_slice JString (Classification_Labels r))])))"

definition Classify :: "'b golib \<Rightarrow> (json \<Rightarrow> error + 'r) \<Rightarrow> Client \<Rightarrow> Context
    \<Rightarrow> ClassificationRequest \<Rightarrow> http_request list \<Rightarrow> (error + 'r) \<times> http_request list" where
  "Classify lib into cl ctx req net =
     (let url = ''https://api.jina.ai/v1/classify'' in
      case ClassificationRequest_json req of
        Inl err \<Rightarrow> (Inl (Wrapf ''failed to marshal request: %w'' err), net)
      | Inr jsonData \<Rightarrow>
          (case NewRequestWithContext ctx ''POST'' url jsonData of
             Inl err \<Rightarrow> (Inl (Wrapf ''failed to create request: %w'' err), net)
           | Inr httpReq \<Rightarrow>
               (let httpReq = Header_Set ''Content-Type'' ''application/json'' httpReq;
                    httpReq = Header_Set ''Accept'' ''application/json'' httpReq;
                    httpReq = (if APIKey (cfg cl) \<noteq> ''''
                               then Header_Set ''Authorization'' (''Bearer '' @ APIKey (cfg cl)) httpReq
                               else httpReq)
                in case client_Do lib httpReq net of
                     (Inl err, net') \<Rightarrow> (Inl err, net')
                   | (Inr resp, net') \<Rightarrow>
                       if StatusCode resp \<noteq> 200
                       then (case Decode_map lib (Body resp) of
                               Inr errResp \<Rightarrow> (Inl (Errorf ''API error: %v'' [ArgMap errResp]), net')
                             | Inl _ \<Rightarrow>
                                 (Inl (Errorf ''API error with status code: %d''
                                        [ArgInt (StatusCode resp)]), net'))
                       else (case Decode_into lib into (Body resp) of
                               Inl err \<Rightarrow> (Inl (Wrapf ''failed to decode response: %w'' err), net')
                             | Inr result \<Rightarrow> (Inr result, net')))))"

section \<open>Rerank: request encoding\<close>

record RerankInput =
  RerankInput_Text :: string
  RerankInput_Image :: string

record RerankRequest =
  Rerank_Model :: string
  Rerank_Query :: string
  Rerank_Documents :: "string list option"
  Rerank_QueryInput :: "RerankInput option"
  Rerank_DocumentsInput :: "RerankInput list option"
  Rerank_TopN :: int
  Rerank_ReturnDocuments :: "bool option"

text \<open>
  \<^verbatim>\<open>RerankInput\<close> has no marshaller of its own: the encoder writes the struct, leaving
  out each field tagged \<^verbatim>\<open>omitempty\<close> that is the empty string.
\<close>

definition RerankInput_json :: "RerankInput \<Rightarrow> json" where
  "RerankInput_json i =
     JObject ((if RerankInput_Text i \<noteq> '''' then [(''text'', JString (RerankInput_Text i))] else [])
            @ (if RerankInput_Image i \<noteq> '''' then [(''image'', JString (RerankInput_Image i))] else []))"

text \<open>
  \<^verbatim>\<open>RerankRequest.MarshalJSON\<close>. \<^verbatim>\<open>QueryInput\<close> is a pointer, tested against
  \<^verbatim>\<open>nil\<close>; \<^verbatim>\<open>DocumentsInput\<close> is a slice, tested by its length.
\<close>

definition RerankRequest_MarshalJSON :: "RerankRequest \<Rightarrow> error + json" where
  "RerankRequest_MarshalJSON r =
     (let data = [];
          data = AList.update ''model'' (JString (Rerank_Model r)) data;
          data = (if Rerank_TopN r > 0
                  then AList.update ''top_n'' (JNum (of_int (Rerank_TopN r))) data
                  else data);
          data = (case Rerank_ReturnDocuments r of
                    Some b \<Rightarrow> AList.update ''return_documents'' (JBool b) data
                  | None \<Rightarrow> data);
          data = (case Rerank_QueryInput r of
                    Some q \<Rightarrow> AList.update ''query'' (RerankInput_json q) data
                  | None \<Rightarrow> AList.update ''query'' (JString (Rerank_Query r)) data);
          data = (if go_len (Rerank_DocumentsInput r) > 0
                  then AList.update ''documents''
                         (marshal_slice RerankInput_json (Rerank_DocumentsInput r)) data
                  else AList.update ''documents''
                         (marshal_slice JString (Rerank_Documents r)) data)
      in Inr (json_Marshal_map data))"

definition Rerank :: "'b golib \<Rightarrow> (json \<Rightarrow> error + 'r) \<Rightarrow> Client \<Rightarrow> Context
    \<Rightarrow> RerankRequest \<Rightarrow> http_request list \<Rightarrow> (error + 'r) \<times> http_request list" where
  "Rerank lib into cl ctx req net =
     (let url = ''https://api.jina.ai/v1/rerank'' in
      case RerankRequest_MarshalJSON req of
        Inl err \<Rightarrow> (Inl (Wrapf ''failed to marshal request: %w'' err), net)
      | Inr jsonData \<Rightarrow>
          (case NewRequestWithContext ctx ''POST'' url jsonData of
             Inl err \<Rightarrow> (Inl (Wrapf ''failed to create request: %w'' err), net)
           | Inr httpReq \<Rightarrow>
               (let httpReq = Header_Set ''Content-Type'' ''application/json'' httpReq;
                    httpReq = Header_Set ''Accept'' ''application/json'' httpReq;
                    httpReq = (if APIKey (cfg cl) \<noteq> ''''
                               then Header_Set ''Authorization'' (''Bearer '' @ APIKey (cfg cl)) httpReq
                               else httpReq)
                in case client_Do lib httpReq net of
                     (Inl err, net') \<Rightarrow> (Inl err, net')
                   | (Inr resp, net') \<Rightarrow>
                       if StatusCode resp \<noteq> 200
                       then (case Decode_map lib (Body resp) of
                               Inr errResp \<Rightarrow> (Inl (Errorf ''API error: %v'' [ArgMap errResp]), net')
                             | Inl _ \<Rightarrow>
                                 (Inl (Errorf ''API error with status code: %d''
                                        [ArgInt (StatusCode resp)]), net'))
                       else (case Decode_into lib into (Body resp) of
                               Inl err \<Rightarrow> (Inl (Wrapf ''failed to decode response: %w'' err), net')
                             | Inr result \<Rightarrow> (Inr result, net')))))"

section \<open>Segmenter\<close>

record SegmenterRequest =
  Segmenter_Content :: string
  Segmenter_Tokenizer :: string
  Segmenter_ReturnTokens :: bool
  Segmenter_ReturnChunks :: bool
  Segmenter_MaxChunkLength :: int
  Segmenter_Head :: int
  Segmenter_Tail :: int

definition SegmenterRequest_json :: "SegmenterRequest \<Rightarrow> error + json" where
  "SegmenterRequest_json r =
     Inr (JObject ([(''content'', JString (Segmenter_Content r))]
                  @ omitempty_string ''tokenizer'' (Segmenter_Tokenizer r)
                  @ omitempty_bool ''return_tokens'' (Segmenter_ReturnTokens r)
                  @ omitempty_bool ''return_chunks'' (Segmenter_ReturnChunks r)
                  @ omitempty_int ''max_chunk_length'' (Segmenter_MaxChunkLength r)
                  @ omitempty_int ''head'' (Segmenter_Head r)
                  @ omitempty_int ''tail'' (Segmenter_Tail r)))"

text \<open>
  A token is decoded from the pair \<^verbatim>\<open>["token_text", [id1, id2...]]\<close>. \<^verbatim>\<open>IDs\<close> is a
  slice, nil until \<^verbatim>\<open>make\<close> allocates it.
\<close>

record Token =
  Token_Text :: string
  Token_IDs :: "int list option"

text \<open>
  The loop over \<^verbatim>\<open>idsRaw\<close>: position \<open>i\<close> of the slice made before the loop is
  written for each number; the first element that is not a number ends the function
  with an error, the slice filled up to there.
\<close>

fun fill_IDs :: "int list \<Rightarrow> nat \<Rightarrow> json list \<Rightarrow> int list \<times> error option" where
  "fill_IDs ids i [] = (ids, None)"
| "fill_IDs ids i (JNum idFloat # rest) = fill_IDs (ids[i := go_int idFloat]) (Suc i) rest"
| "fill_IDs ids i (_ # rest) = (ids, Some (Errorf ''invalid token ID: not a number'' []))"

text \<open>
  \<^verbatim>\<open>Token.UnmarshalJSON\<close> works on its receiver: the result is the token as the call
  leaves it and the error returned (\<open>None\<close> for nil). \<^verbatim>\<open>Text\<close> is assigned before the
  second element is looked at, so a failure there leaves the new text in the token.
\<close>

definition Token_UnmarshalJSON :: "'b golib \<Rightarrow> Token \<Rightarrow> string \<Rightarrow> Token \<times> error option" where
  "Token_UnmarshalJSON lib t data =
     (case (case json_Unmarshal lib data of Inl e \<Rightarrow> Inl e | Inr v \<Rightarrow> into_slice v) of
        Inl err \<Rightarrow> (t, Some err)
      | Inr raw \<Rightarrow>
          (case raw of
             Some [raw0, raw1] \<Rightarrow>
               (case raw0 of
                  JString text \<Rightarrow>
                    (let t = t\<lparr>Token_Text := text\<rparr> in
                     case raw1 of
                       JArray idsRaw \<Rightarrow>
                         (let t = t\<lparr>Token_IDs := Some (replicate (length idsRaw) 0)\<rparr>;
                              (ids, err) = fill_IDs (replicate (length idsRaw) 0) 0 idsRaw
                          in (t\<lparr>Token_IDs := Some ids\<rparr>, err))
                     | _ \<Rightarrow> (t, Some (Errorf ''invalid token format: second element is not array'' [])))
                | _ \<Rightarrow> (t, Some (Errorf ''invalid token format: first element is not string'' [])))
           | _ \<Rightarrow>
               (t, Some (Errorf ''invalid token format: expected 2 elements, got %d''
                          [ArgInt (int (go_len raw))]))))"

definition Segment :: "'b golib \<Rightarrow> (json \<Rightarrow> error + 'r) \<Rightarrow> Client \<Rightarrow> Context
    \<Rightarrow> SegmenterRequest \<Rightarrow> http_request list \<Rightarrow> (error + 'r) \<times> http_request list" where
  "Segment lib into cl ctx req net =
     (let url = ''https://segment.jina.ai/'' in
      case SegmenterRequest_json req of
        Inl err \<Rightarrow> (Inl (Wrapf ''failed to marshal request: %w'' err), net)
      | Inr jsonData \<Rightarrow>
          (case NewRequestWithContext ctx ''POST'' url jsonData of
             Inl err \<Rightarrow> (Inl (Wrapf ''failed to create request: %w'' err), net)
           | Inr httpReq \<Rightarrow>
               (let httpReq = Header_Set ''Content-Type'' ''application/json'' httpReq;
                    httpReq = Header_Set ''Accept'' ''application/json'' httpReq;
                    httpReq = (if APIKey (cfg cl) \<noteq> ''''
                               then Header_Set ''Authorization'' (''Bearer '' @ APIKey (cfg cl)) httpReq
                               else httpReq)
                in case client_Do lib httpReq net of
                     (Inl err, net') \<Rightarrow> (Inl err, net')
                   | (Inr resp, net') \<Rightarrow>
                       if StatusCode resp \<noteq> 200
                       then (case Decode_map lib (Body resp) of
                               Inr errResp \<Rightarrow> (Inl (Errorf ''API error: %v'' [ArgMap errResp]), net')
                             | Inl _ \<Rightarrow>
                                 (Inl (Errorf ''API error with status code: %d''
                                        [ArgInt (StatusCode resp)]), net'))
                       else (case Decode_into lib into (Body resp) of
                               Inl err \<Rightarrow> (Inl (Wrapf ''failed to decode response: %w'' err), net')
                             | Inr result \<Rightarrow> (Inr result, net')))))"

section \<open>VLM\<close>

definition VLMModelDefault :: string where
  "VLMModelDefault = ''jina-vlm''"

record VLMImageURL =
  VLMImageURL_URL :: string

record VLMContentPart =
  Part_Type :: string
  Part_Text :: string
  Part_ImageURL :: "VLMImageURL option"

record VLMMessageContent =
  Content_Text :: string
  Content_Parts :: "VLMContentPart list option"

record VLMMessage =
  Message_Role :: string
  Message_Content :: VLMMessageContent

record VLMRequest =
  VLM_Model :: string
  VLM_Messages :: "VLMMessage list option"
  VLM_Stream :: bool

definition VLMContentPart_json :: "VLMContentPart \<Rightarrow> json" where
  "VLMContentPart_json p =
     JObject ([(''type'', JString (Part_Type p))]
              @ omitempty_string ''text'' (Part_Text p)
              @ (case Part_ImageURL p of
                   None \<Rightarrow> []
                 | Some u \<Rightarrow> [(''image_url'', JObject [(''url'', JString (VLMImageURL_URL u))])]))"

definition VLMMessageContent_MarshalJSON :: "VLMMessageContent \<Rightarrow> error + json" where
  "VLMMessageContent_MarshalJSON c =
     (if go_len (Content_Parts c) > 0
      then Inr (marshal_slice VLMContentPart_json (Content_Parts c))
      else Inr (JString (Content_Text c)))"

definition NewVLMMessage :: "string \<Rightarrow> string \<Rightarrow> VLMMessage" where
  "NewVLMMessage role text =
     \<lparr>Message_Role = role, Message_Content = \<lparr>Content_Text = text, Content_Parts = None\<rparr>\<rparr>"

definition NewVLMMessageWithParts :: "string \<Rightarrow> VLMContentPart list option \<Rightarrow> VLMMessage" where
  "NewVLMMessageWithParts role parts =
     \<lparr>Message_Role = role, Message_Content = \<lparr>Content_Text = '''', Content_Parts = parts\<rparr>\<rparr>"

definition VLMMessage_json :: "VLMMessage \<Rightarrow> error + json" where
  "VLMMessage_json m =
     (case VLMMessageContent_MarshalJSON (Message_Content m) of
        Inl e \<Rightarrow> Inl e
      | Inr c \<Rightarrow> Inr (JObject [(''role'', JString (Message_Role m)), (''content'', c)]))"

text \<open>\<^verbatim>\<open>json.Marshal(req)\<close> for a \<^verbatim>\<open>VLMRequest\<close>; \<^verbatim>\<open>stream\<close> is tagged \<^verbatim>\<open>omitempty\<close>.\<close>

definition VLMRequest_json :: "VLMRequest \<Rightarrow> error + json" where
  "VLMRequest_json r =
     (case marshal_slice_with VLMMessage_json (VLM_Messages r) of
        Inl e \<Rightarrow> Inl e
      | Inr messages \<Rightarrow>
          Inr (JObject ([(''model'', JString (VLM_Model r)), (''messages'', messages)]
                       @ omitempty_bool ''stream'' (VLM_Stream r))))"

definition VLM :: "'b golib \<Rightarrow> (json \<Rightarrow> error + 'r) \<Rightarrow> Client \<Rightarrow> Context
    \<Rightarrow> VLMRequest \<Rightarrow> http_request list \<Rightarrow> (error + 'r) \<times> http_request list" where
  "VLM lib into cl ctx req net =
     (let url = ''https://api-beta-vlm.jina.ai/v1/chat/completions'';
          req = (if VLM_Model req = '''' then req\<lparr>VLM_Model := VLMModelDefault\<rparr> else req);
          req = req\<lparr>VLM_Stream := False\<rparr>
      in case VLMRequest_json req of
        Inl err \<Rightarrow> (Inl (Wrapf ''failed to marshal request: %w'' err), net)
      | Inr jsonData \<Rightarrow>
          (case NewRequestWithContext ctx ''POST'' url jsonData of
             Inl err \<Rightarrow> (Inl (Wrapf ''failed to create request: %w'' err), net)
           | Inr httpReq \<Rightarrow>
               (let httpReq = Header_Set ''Content-Type'' ''application/json'' httpReq;
                    httpReq = Header_Set ''Accept'' ''application/json'' httpReq;
                    httpReq = (if APIKey (cfg cl) \<noteq> ''''
                               then Header_Set ''Authorization'' (''Bearer '' @ APIKey (cfg cl)) httpReq
                               else httpReq)
                in case client_Do lib httpReq net of
                     (Inl err, net') \<Rightarrow> (Inl err, net')
                   | (Inr resp, net') \<Rightarrow>
                       if StatusCode resp \<noteq> 200
                       then (case Decode_map lib (Body resp) of
                               Inr errResp \<Rightarrow> (Inl (Errorf ''API error: %v'' [ArgMap errResp]), net')
                             | Inl _ \<Rightarrow>
                                 (Inl (Errorf ''API error with status code: %d''
                                        [ArgInt (StatusCode resp)]), net'))
                       else (case Decode_into lib into (Body resp) of
                               Inl err \<Rightarrow> (Inl (Wrapf ''failed to decode response: %w'' err), net')
                             | Inr result \<Rightarrow> (Inr result, net')))))"

text \<open>
  \<^verbatim>\<open>json.Unmarshal(data, &chunk)\<close>: the parser, then the conversion \<open>into\<close> of the
  parsed value to the chunk type (the encoder's reflection on the response struct, a
  parameter).
\<close>

definition Unmarshal_into :: "'b golib \<Rightarrow> (json \<Rightarrow> error + 'r) \<Rightarrow> string \<Rightarrow> error + 'r" where
  "Unmarshal_into lib into data =
     (case json_Unmarshal lib data of Inl e \<Rightarrow> Inl e | Inr v \<Rightarrow> into v)"

definition VLMStream :: "'b golib \<Rightarrow> (json \<Rightarrow> error + 'r) \<Rightarrow> Client \<Rightarrow> Context \<Rightarrow> VLMRequest
    \<Rightarrow> ('s \<Rightarrow> 'r \<Rightarrow> error option \<times> 's) \<Rightarrow> http_request list \<Rightarrow> 's
    \<Rightarrow> error option \<times> http_request list \<times> 's" where
  "VLMStream lib into cl ctx req callback net s =
     (let url = ''https://api-beta-vlm.jina.ai/v1/chat/completions'';
          req = (if VLM_Model req = '''' then req\<lparr>VLM_Model := VLMModelDefault\<rparr> else req);
          req = req\<lparr>VLM_Stream := True\<rparr>
      in case VLMRequest_json req of
        Inl err \<Rightarrow> (Some (Wrapf ''failed to marshal request: %w'' err), net, s)
      | Inr jsonData \<Rightarrow>
          (case NewRequestWithContext ctx ''POST'' url jsonData of
             Inl err \<Rightarrow> (Some (Wrapf ''failed to create request: %w'' err), net, s)
           | Inr httpReq \<Rightarrow>
               (let httpReq = Header_Set ''Content-Type'' ''application/json'' httpReq;
                    httpReq = Header_Set ''Accept'' ''text/event-stream'' httpReq;
                    httpReq = (if APIKey (cfg cl) \<noteq> ''''
                               then Header_Set ''Authorization'' (''Bearer '' @ APIKey (cfg cl)) httpReq
                               else httpReq)
                in doStream lib httpReq
                     (\<lambda>s data. case Unmarshal_into lib into data of
                                 Inl err \<Rightarrow> (Some (Wrapf ''failed to unmarshal chunk: %w'' err), s)
                               | Inr chunk \<Rightarrow> callback s chunk)
                     net s)))"

section \<open>DeepSearch\<close>

definition DeepSearchModelDefault :: string where
  "DeepSearchModelDefault = ''jina-deepsearch-v1''"

text \<open>
  \<^verbatim>\<open>JSONSchema\<close> is a \<^verbatim>\<open>json.RawMessage\<close>: bytes, or nil (\<open>None\<close>). The encoder
  writes \<^verbatim>\<open>null\<close> for nil, copies bytes that parse, and fails on bytes that do not.
\<close>

record DeepSearchResponseFormat =
  Format_Type :: string
  Format_JSONSchema :: "string option"

record DeepSearchRequest =
  DeepSearch_Model :: string
  DeepSearch_Messages :: "VLMMessage list option"
  DeepSearch_Stream :: bool
  DeepSearch_ReasoningEffort :: string
  DeepSearch_BudgetTokens :: int
  DeepSearch_MaxAttempts :: int
  DeepSearch_NoDirectAnswer :: bool
  DeepSearch_MaxReturnedURLs :: int
  DeepSearch_ResponseFormat :: "DeepSearchResponseFormat option"
  DeepSearch_BoostHostnames :: "string list option"

definition RawMessage_json :: "'b golib \<Rightarrow> string option \<Rightarrow> error + json" where
  "RawMessage_json lib m =
     (case m of
        None \<Rightarrow> Inr JNull
      | Some bytes \<Rightarrow>
          (case json_Unmarshal lib bytes of
             Inl e \<Rightarrow> Inl (Wrapf ''json: error calling MarshalJSON for type json.RawMessage: %w'' e)
           | Inr v \<Rightarrow> Inr v))"

definition DeepSearchResponseFormat_json :: "'b golib \<Rightarrow> DeepSearchResponseFormat \<Rightarrow> error + json" where
  "DeepSearchResponseFormat_json lib f =
     (case RawMessage_json lib (Format_JSONSchema f) of
        Inl e \<Rightarrow> Inl e
      | Inr schema \<Rightarrow> Inr (JObject [(''type'', JString (Format_Type f)), (''json_schema'', schema)]))"

text \<open>\<^verbatim>\<open>json.Marshal(req)\<close> for a \<^verbatim>\<open>DeepSearchRequest\<close>, by its field tags.\<close>

definition DeepSearchRequest_json :: "'b golib \<Rightarrow> DeepSearchRequest \<Rightarrow> error + json" where
  "DeepSearchRequest_json lib r =
     (case marshal_slice_with VLMMessage_json (DeepSearch_Messages r) of
        Inl e \<Rightarrow> Inl e
      | Inr messages \<Rightarrow>
          (case (case DeepSearch_ResponseFormat r of
                   None \<Rightarrow> Inr []
                 | Some f \<Rightarrow>
                     (case DeepSearchResponseFormat_json lib f of
                        Inl e \<Rightarrow> Inl e
                      | Inr j \<Rightarrow> Inr [(''response_format'', j)])) of
             Inl e \<Rightarrow> Inl e
           | Inr response_format \<Rightarrow>
               Inr (JObject ([(''model'', JString (DeepSearch_Model r)), (''messages'', messages)]
                            @ omitempty_bool ''stream'' (DeepSearch_Stream r)
                            @ omitempty_string ''reasoning_effort'' (DeepSearch_ReasoningEffort r)
                            @ omitempty_int ''budget_tokens'' (DeepSearch_BudgetTokens r)
                            @ omitempty_int ''max_attempts'' (DeepSearch_MaxAttempts r)
                            @ omitempty_bool ''no_direct_answer'' (DeepSearch_NoDirectAnswer r)
                            @ omitempty_int ''max_returned_urls'' (DeepSearch_MaxReturnedURLs r)
                            @ response_format
                            @ (if go_len (DeepSearch_BoostHostnames r) = 0 then []
                               else [(''boost_hostnames'',
                                      marshal_slice JString (DeepSearch_BoostHostnames r))])))))"

definition DeepSearch :: "'b golib \<Rightarrow> (json \<Rightarrow> error + 'r) \<Rightarrow> Client \<Rightarrow> Context
    \<Rightarrow> DeepSearchRequest \<Rightarrow> http_request list \<Rightarrow> (error + 'r) \<times> http_request list" where
  "DeepSearch lib into cl ctx req net =
     (let url = ''https://deepsearch.jina.ai/v1/chat/completions'';
          req = (if DeepSearch_Model req = '''' then req\<lparr>DeepSearch_Model := DeepSearchModelDefault\<rparr>
                 else req);
          req = req\<lparr>DeepSearch_Stream := False\<rparr>
      in case DeepSearchRequest_json lib req of
        Inl err \<Rightarrow> (Inl (Wrapf ''failed to marshal request: %w'' err), net)
      | Inr jsonData \<Rightarrow>
          (case NewRequestWithContext ctx ''POST'' url jsonData of
             Inl err \<Rightarrow> (Inl (Wrapf ''failed to create request: %w'' err), net)
           | Inr httpReq \<Rightarrow>
               (let httpReq = Header_Set ''Content-Type'' ''application/json'' httpReq;
                    httpReq = Header_Set ''Accept'' ''application/json'' httpReq;
                    httpReq = (if APIKey (cfg cl) \<noteq> ''''
                               then Header_Set ''Authorization'' (''Bearer '' @ APIKey (cfg cl)) httpReq
                               else httpReq)
                in case client_Do lib httpReq net of
                     (Inl err, net') \<Rightarrow> (Inl err, net')
                   | (Inr resp, net') \<Rightarrow>
                       if StatusCode resp \<noteq> 200
                       then (case Decode_map lib (Body resp) of
                               Inr errResp \<Rightarrow> (Inl (Errorf ''API error: %v'' [ArgMap errResp]), net')
                             | Inl _ \<Rightarrow>
                                 (Inl (Errorf ''API error with status code: %d''
                                        [ArgInt (StatusCode resp)]), net'))
                       else (case Decode_into lib into (Body resp) of
                               Inl err \<Rightarrow> (Inl (Wrapf ''failed to decode response: %w'' err), net')
                             | Inr result \<Rightarrow> (Inr result, net')))))"

definition DeepSearchStream :: "'b golib \<Rightarrow> (json \<Rightarrow> error + 'r) \<Rightarrow> Client \<Rightarrow> Context
    \<Rightarrow> DeepSearchRequest \<Rightarrow> ('s \<Rightarrow> 'r \<Rightarrow> error option \<times> 's) \<Rightarrow> http_request list \<Rightarrow> 's
    \<Rightarrow> error option \<times> http_request list \<times> 's" where
  "DeepSearchStream lib into cl ctx req callback net s =
     (let url = ''https://deepsearch.jina.ai/v1/chat/completions'';
          req = (if DeepSearch_Model req = '''' then req\<lparr>DeepSearch_Model := DeepSearchModelDefault\<rparr>
                 else req);
          req = req\<lparr>DeepSearch_Stream := True\<rparr>
      in case DeepSearchRequest_json lib req of
        Inl err \<Rightarrow> (Some (Wrapf ''failed to marshal request: %w'' err), net, s)
      | Inr jsonData \<Rightarrow>
          (case NewRequestWithContext ctx ''POST'' url jsonData of
             Inl err \<Rightarrow> (Some (Wrapf ''failed to create request: %w'' err), net, s)
           | Inr httpReq \<Rightarrow>
               (let httpReq = Header_Set ''Content-Type'' ''application/json'' httpReq;
                    httpReq = Header_Set ''Accept'' ''text/event-stream'' httpReq;
                    httpReq = (if APIKey (cfg cl) \<noteq> ''''
                               then Header_Set ''Authorization'' (''Bearer '' @ APIKey (cfg cl)) httpReq
                               else httpReq)
                in doStream lib httpReq
                     (\<lambda>s data. case Unmarshal_into lib into data of
                                 Inl err \<Rightarrow> (Some (Wrapf ''failed to unmarshal chunk: %w'' err), s)
                               | Inr chunk \<Rightarrow> callback s chunk)
                     net s)))"

section \<open>Reader\<close>

record Viewport =
  Viewport_Width :: int
  Viewport_Height :: int

record ReaderRequest =
  Reader_URL :: string
  Reader_Viewport :: "Viewport option"
  Reader_InjectPageScript :: string
  Reader_JSONResponse :: bool
  Reader_BrowserEngine :: string
  Reader_ContentFormat :: string
  Reader_Timeout :: int
  Reader_TargetSelector :: string
  Reader_WaitForSelector :: string
  Reader_RemoveSelector :: string
  Reader_GatherLinks :: string
  Reader_GatherImages :: string
  Reader_ImageCaption :: bool
  Reader_BypassCachedContent :: bool
  Reader_WithIframe :: bool
  Reader_TokenBudget :: int
  Reader_RemoveAllImages :: bool
  Reader_RespondWith :: string
  Reader_SetCookie :: string
  Reader_ProxyURL :: string
  Reader_ProxyCountry :: string
  Reader_DNT :: int
  Reader_NoGfm :: string
  Reader_BrowserLocale :: string
  Reader_RobotsTxt :: string
  Reader_WithShadowDom :: bool
  Reader_Base :: string
  Reader_MdHeadingStyle :: string
  Reader_MdHr :: string
  Reader_MdBulletListMarker :: string
  Reader_MdEmDelimiter :: string
  Reader_MdStrongDelimiter :: string
  Reader_MdLinkStyle :: string
  Reader_MdLinkReferenceStyle :: string
  Reader_EUCompliance :: bool

record 'r ReaderResponse =
  ReaderResponse_Text :: string
  ReaderResponse_Structured :: "'r option"

definition BrowserEngineDefault :: string where
  "BrowserEngineDefault = ''''"

definition ContentFormatDefault :: string where
  "ContentFormatDefault = ''''"

text \<open>The body of a Reader request: the three fields that are not tagged \<^verbatim>\<open>json:"-"\<close>.\<close>

definition ReaderRequest_json :: "ReaderRequest \<Rightarrow> error + json" where
  "ReaderRequest_json r =
     Inr (JObject ([(''url'', JString (Reader_URL r))]
                  @ (case Reader_Viewport r of
                       None \<Rightarrow> []
                     | Some v \<Rightarrow> [(''viewport'', JObject [(''width'', JNum (of_int (Viewport_Width v))),
                                                         (''height'', JNum (of_int (Viewport_Height v)))])])
                  @ omitempty_string ''injectPageScript'' (Reader_InjectPageScript r)))"

definition buildReaderURL :: "Client \<Rightarrow> ReaderRequest \<Rightarrow> string" where
  "buildReaderURL cl args =
     (let baseURL = ''https://r.jina.ai/'';
          baseURL = (if Reader_EUCompliance args then ''https://eu.r.jina.ai/'' else baseURL)
      in baseURL)"

text \<open>
  The guarded \<^verbatim>\<open>Header.Add\<close> statements of the header functions, in their order: each
  entry is the guard, the header name and the value.
\<close>

definition add_headers :: "(bool \<times> string \<times> string) list \<Rightarrow> http_request \<Rightarrow> http_request" where
  "add_headers entries rq = fold (\<lambda>(guard, k, v) rq. if guard then Header_Add k v rq else rq) entries rq"

definition setReaderHeaders :: "Client \<Rightarrow> http_request \<Rightarrow> ReaderRequest \<Rightarrow> http_request" where
  "setReaderHeaders cl httpReq req =
     (let httpReq = Header_Add ''Authorization'' (''Bearer '' @ APIKey (cfg cl)) httpReq
      in add_headers
        [(Reader_TokenBudget req > 0, ''X-Token-Budget'', Itoa (Reader_TokenBudget req)),
         (Reader_ContentFormat req \<noteq> ContentFormatDefault, ''X-Return-Format'', Reader_ContentFormat req),
         (Reader_BrowserEngine req \<noteq> BrowserEngineDefault, ''X-Engine'', Reader_BrowserEngine req),
         (Reader_Timeout req > 0, ''X-Timeout'', Itoa (Reader_Timeout req)),
         (Reader_GatherLinks req \<noteq> '''', ''X-With-Links-Summary'', Reader_GatherLinks req),
         (Reader_RemoveAllImages req, ''X-Retain-Images'', ''none''),
         (Reader_GatherImages req \<noteq> '''', ''X-With-Images-Summary'', Reader_GatherImages req),
         (Reader_ImageCaption req, ''X-With-Generated-Alt'', ''true''),
         (Reader_ProxyCountry req \<noteq> '''', ''X-Proxy'', Reader_ProxyCountry req),
         (Reader_ProxyURL req \<noteq> '''', ''X-Proxy-Url'', Reader_ProxyURL req),
         (Reader_BrowserLocale req \<noteq> '''', ''X-Locale'', Reader_BrowserLocale req),
         (Reader_BypassCachedContent req, ''X-No-Cache'', ''true''),
         (Reader_TargetSelector req \<noteq> '''', ''X-Target-Selector'', Reader_TargetSelector req),
         (Reader_WaitForSelector req \<noteq> '''', ''X-Wait-For-Selector'', Reader_WaitForSelector req),
         (Reader_RemoveSelector req \<noteq> '''', ''X-Remove-Selector'', Reader_RemoveSelector req),
         (Reader_WithIframe req, ''X-With-Iframe'', ''true''),
         (Reader_WithShadowDom req, ''X-With-Shadow-Dom'', ''true''),
         (Reader_RespondWith req \<noteq> '''', ''X-Respond-With'', Reader_RespondWith req),
         (Reader_SetCookie req \<noteq> '''', ''X-Set-Cookie'', Reader_SetCookie req),
         (Reader_DNT req > 0, ''DNT'', Itoa (Reader_DNT req)),
         (Reader_NoGfm req \<noteq> '''', ''X-No-Gfm'', Reader_NoGfm req),
         (Reader_RobotsTxt req \<noteq> '''', ''X-Robots-Txt'', Reader_RobotsTxt req),
         (Reader_Base req \<noteq> '''', ''X-Base'', Reader_Base req),
         (Reader_MdHeadingStyle req \<noteq> '''', ''X-Md-Heading-Style'', Reader_MdHeadingStyle req),
         (Reader_MdHr req \<noteq> '''', ''X-Md-Hr'', Reader_MdHr req),
         (Reader_MdBulletListMarker req \<noteq> '''', ''X-Md-Bullet-List-Marker'', Reader_MdBulletListMarker req),
         (Reader_MdEmDelimiter req \<noteq> '''', ''X-Md-Em-Delimiter'', Reader_MdEmDelimiter req),
         (Reader_MdStrongDelimiter req \<noteq> '''', ''X-Md-Strong-Delimiter'', Reader_MdStrongDelimiter req),
         (Reader_MdLinkStyle req \<noteq> '''', ''X-Md-Link-Style'', Reader_MdLinkStyle req),
         (Reader_MdLinkReferenceStyle req \<noteq> '''', ''X-Md-Link-Reference-Style'',
            Reader_MdLinkReferenceStyle req),
         (Reader_JSONResponse req, ''Accept'', ''application/json'')]
        httpReq)"

definition parseReaderResponse :: "'b golib \<Rightarrow> (json \<Rightarrow> error + 'r) \<Rightarrow> string \<Rightarrow> bool
    \<Rightarrow> error + 'r ReaderResponse" where
  "parseReaderResponse lib into body jsonResponse =
     (if jsonResponse
      then (case Unmarshal_into lib into body of
              Inl err \<Rightarrow> Inl (Wrapf ''unmarshal response body: %w'' err)
            | Inr structured \<Rightarrow>
                Inr \<lparr>ReaderResponse_Text = '''', ReaderResponse_Structured = Some structured\<rparr>)
      else Inr \<lparr>ReaderResponse_Text = body, ReaderResponse_Structured = None\<rparr>)"

definition Reader :: "'b golib \<Rightarrow> (json \<Rightarrow> error + 'r) \<Rightarrow> Client \<Rightarrow> Context \<Rightarrow> ReaderRequest
    \<Rightarrow> http_request list \<Rightarrow> (error + 'r ReaderResponse) \<times> http_request list" where
  "Reader lib into cl ctx req net =
     (if Reader_URL req = '''' then (Inl (Errorf ''URL is required'' []), net)
      else
        (let req = (if EUCompliance (cfg cl) then req\<lparr>Reader_EUCompliance := True\<rparr> else req);
             requestURL = buildReaderURL cl req
         in case ReaderRequest_json req of
              Inl err \<Rightarrow> (Inl (Wrapf ''failed to marshal request: %w'' err), net)
            | Inr jsonData \<Rightarrow>
                (case NewRequestWithContext ctx ''POST'' requestURL jsonData of
                   Inl err \<Rightarrow> (Inl (Wrapf ''create request: %w'' err), net)
                 | Inr httpReq \<Rightarrow>
                     (let httpReq = Header_Set ''Content-Type'' ''application/json'' httpReq;
                          httpReq = setReaderHeaders cl httpReq req
                      in case client_Do lib httpReq net of
                           (Inl err, net') \<Rightarrow> (Inl (Wrapf ''do request: %w'' err), net')
                         | (Inr resp, net') \<Rightarrow>
                             if StatusCode resp \<noteq> 200
                             then (case io_ReadAll lib (Body resp) of
                                     (body, _) \<Rightarrow>
                                       (Inl (Errorf ''API error: status %d, body: %s''
                                              [ArgInt (StatusCode resp), ArgString body]), net'))
                             else (case io_ReadAll lib (Body resp) of
                                     (body, Some err) \<Rightarrow>
                                       (Inl (Wrapf ''read response body: %w'' err), net')
                                   | (body, None) \<Rightarrow>
                                       (parseReaderResponse lib into body (Reader_JSONResponse req),
                                        net'))))))"

section \<open>Search\<close>

record SearchRequest =
  Search_Query :: string
  Search_CountryCode :: string
  Search_Location :: string
  Search_LanguageCode :: string
  Search_MaxResults :: int
  Search_PageOffset :: int
  Search_JSONResponse :: bool
  Search_Site :: string
  Search_WithLinksSummary :: bool
  Search_WithImagesSummary :: bool
  Search_RetainImages :: string
  Search_NoCache :: bool
  Search_WithGeneratedAlt :: bool
  Search_RespondWith :: string
  Search_WithFavicon :: bool
  Search_ReturnFormat :: string
  Search_Engine :: string
  Search_WithFavicons :: bool
  Search_Timeout :: int
  Search_SetCookie :: string
  Search_ProxyURL :: string
  Search_Locale :: string
  Search_EUCompliance :: bool

record 'r SearchResponse =
  SearchResponse_Text :: string
  SearchResponse_Structured :: "'r option"

definition SearchRequest_json :: "SearchRequest \<Rightarrow> error + json" where
  "SearchRequest_json r =
     Inr (JObject ([(''q'', JString (Search_Query r))]
                  @ omitempty_string ''gl'' (Search_CountryCode r)
                  @ omitempty_string ''location'' (Search_Location r)
                  @ omitempty_string ''hl'' (Search_LanguageCode r)
                  @ omitempty_int ''num'' (Search_MaxResults r)
                  @ omitempty_int ''page'' (Search_PageOffset r)))"

definition buildSearchURL :: "Client \<Rightarrow> SearchRequest \<Rightarrow> string" where
  "buildSearchURL cl args =
     (let baseURL = ''https://s.jina.ai/'';
          baseURL = (if Search_EUCompliance args then ''https://eu.s.jina.ai/'' else baseURL)
      in baseURL)"

definition setSearchHeaders :: "Client \<Rightarrow> http_request \<Rightarrow> SearchRequest \<Rightarrow> http_request" where
  "setSearchHeaders cl req args =
     (let req = Header_Add ''Authorization'' (''Bearer '' @ APIKey (cfg cl)) req
      in add_headers
        [(Search_JSONResponse args, ''Accept'', ''application/json''),
         (Search_Site args \<noteq> '''', ''X-Site'', Search_Site args),
         (Search_WithLinksSummary args, ''X-With-Links-Summary'', ''true''),
         (Search_WithImagesSummary args, ''X-With-Images-Summary'', ''true''),
         (Search_RetainImages args \<noteq> '''', ''X-Retain-Images'', Search_RetainImages args),
         (Search_NoCache args, ''X-No-Cache'', ''true''),
         (Search_WithGeneratedAlt args, ''X-With-Generated-Alt'', ''true''),
         (Search_RespondWith args \<noteq> '''', ''X-Respond-With'', Search_RespondWith args),
         (Search_WithFavicon args, ''X-With-Favicon'', ''true''),
         (Search_ReturnFormat args \<noteq> '''', ''X-Return-Format'', Search_ReturnFormat args),
         (Search_Engine args \<noteq> '''', ''X-Engine'', Search_Engine args),
         (Search_WithFavicons args, ''X-With-Favicons'', ''true''),
         (Search_Timeout args > 0, ''X-Timeout'', Itoa (Search_Timeout args)),
         (Search_SetCookie args \<noteq> '''', ''X-Set-Cookie'', Search_SetCookie args),
         (Search_ProxyURL args \<noteq> '''', ''X-Proxy-Url'', Search_ProxyURL args),
         (Search_Locale args \<noteq> '''', ''X-Locale'', Search_Locale args)]
        req)"

definition parseSearchResponse :: "'b golib \<Rightarrow> (json \<Rightarrow> error + 'r) \<Rightarrow> string \<Rightarrow> bool
    \<Rightarrow> error + 'r SearchResponse" where
  "parseSearchResponse lib into body jsonResponse =
     (if jsonResponse
      then (case Unmarshal_into lib into body of
              Inl err \<Rightarrow> Inl (Wrapf ''unmarshal response body: %w'' err)
            | Inr structured \<Rightarrow>
                Inr \<lparr>SearchResponse_Text = '''', SearchResponse_Structured = Some structured\<rparr>)
      else Inr \<lparr>SearchResponse_Text = body, SearchResponse_Structured = None\<rparr>)"

definition Search :: "'b golib \<Rightarrow> (json \<Rightarrow> error + 'r) \<Rightarrow> Client \<Rightarrow> Context \<Rightarrow> SearchRequest
    \<Rightarrow> http_request list \<Rightarrow> (error + 'r SearchResponse) \<times> http_request list" where
  "Search lib into cl ctx req net =
     (if Search_Query req = '''' then (Inl (Errorf ''query is required'' []), net)
      else
        (let req = (if EUCompliance (cfg cl) then req\<lparr>Search_EUCompliance := True\<rparr> else req);
             requestURL = buildSearchURL cl req
         in case SearchRequest_json req of
              Inl err \<Rightarrow> (Inl (Wrapf ''failed to marshal request: %w'' err), net)
            | Inr jsonData \<Rightarrow>
                (case NewRequestWithContext ctx ''POST'' requestURL jsonData of
                   Inl err \<Rightarrow> (Inl (Wrapf ''create request: %w'' err), net)
                 | Inr httpReq \<Rightarrow>
                     (let httpReq = Header_Set ''Content-Type'' ''application/json'' httpReq;
                          httpReq = setSearchHeaders cl httpReq req
                      in case client_Do lib httpReq net of
                           (Inl err, net') \<Rightarrow> (Inl (Wrapf ''do request: %w'' err), net')
                         | (Inr resp, net') \<Rightarrow>
                             if StatusCode resp \<noteq> 200
                             then (case io_ReadAll lib (Body resp) of
                                     (body, _) \<Rightarrow>
                                       (Inl (Errorf ''API error: status %d, body: %s''
                                              [ArgInt (StatusCode resp), ArgString body]), net'))
                             else (case io_ReadAll lib (Body resp) of
                                     (body, Some err) \<Rightarrow>
                                       (Inl (Wrapf ''read response body: %w'' err), net')
                                   | (body, None) \<Rightarrow>
                                       (parseSearchResponse lib into body (Search_JSONResponse req),
                                        net'))))))"

section \<open>Observing a call\<close>

text \<open>
  The payloads of a run of lines: what follows the prefix on each line that has it. The
  loop of \<^verbatim>\<open>doStream\<close> seen on the payloads alone.
\<close>

definition data_payloads :: "string list \<Rightarrow> string list" where
  "data_payloads lines =
     map (\<lambda>l. TrimPrefix l ''data: '') (filter (\<lambda>l. HasPrefix l ''data: '') lines)"

fun payload_scan :: "('s \<Rightarrow> string \<Rightarrow> error option \<times> 's) \<Rightarrow> string list \<Rightarrow> 's
    \<Rightarrow> error option option \<times> 's" where
  "payload_scan callback [] s = (None, s)"
| "payload_scan callback (d # ds) s =
     (if d = ''[DONE]'' then (Some None, s)
      else (case callback s d of
              (Some err, s') \<Rightarrow> (Some (Some err), s')
            | (None, s') \<Rightarrow> payload_scan callback ds s'))"

text \<open>
  A callback that also keeps the list of the arguments it was invoked with, in order:
  the length of the list is the number of invocations.
\<close>

definition traced :: "('s \<Rightarrow> 'a \<Rightarrow> error option \<times> 's) \<Rightarrow> 's \<times> 'a list \<Rightarrow> 'a
    \<Rightarrow> error option \<times> ('s \<times> 'a list)" where
  "traced callback st x =
     (case st of (s, calls) \<Rightarrow> (case callback s x of (r, s') \<Rightarrow> (r, (s', calls @ [x]))))"

text \<open>
  The error-detail mapping that the body of a reply decodes to, if it does: the members
  of a JSON object, no members for \<^verbatim>\<open>null\<close>, and none when the body does not parse or
  holds a value of another kind.
\<close>

definition decoded_detail :: "'b golib \<Rightarrow> 'b \<Rightarrow> (string \<times> json) list option" where
  "decoded_detail lib body =
     (case json_Decode lib body of
        Inr (JObject kv) \<Rightarrow> Some kv
      | Inr JNull \<Rightarrow> Some []
      | _ \<Rightarrow> None)"

text \<open>
  The lines that \<^verbatim>\<open>Classify\<close>, \<^verbatim>\<open>Segment\<close>, \<^verbatim>\<open>Rerank\<close>, \<^verbatim>\<open>VLM\<close> and
  \<^verbatim>\<open>DeepSearch\<close> repeat once the request is built: send it, turn a status other than
  200 into an error, decode the body otherwise.
\<close>

definition reply_handling :: "'b golib \<Rightarrow> (json \<Rightarrow> error + 'r) \<Rightarrow> http_request
    \<Rightarrow> http_request list \<Rightarrow> (error + 'r) \<times> http_request list" where
  "reply_handling lib into httpReq net =
     (case client_Do lib httpReq net of
        (Inl err, net') \<Rightarrow> (Inl err, net')
      | (Inr resp, net') \<Rightarrow>
          if StatusCode resp \<noteq> 200
          then (case Decode_map lib (Body resp) of
                  Inr errResp \<Rightarrow> (Inl (Errorf ''API error: %v'' [ArgMap errResp]), net')
                | Inl _ \<Rightarrow>
                    (Inl (Errorf ''API error with status code: %d''
                           [ArgInt (StatusCode resp)]), net'))
          else (case Decode_into lib into (Body resp) of
                  Inl err \<Rightarrow> (Inl (Wrapf ''failed to decode response: %w'' err), net')
                | Inr result \<Rightarrow> (Inr result, net')))"

text \<open>The member of the encoded body under a key, when the encoding succeeds.\<close>

fun body_field :: "string \<Rightarrow> error + json \<Rightarrow> json option" where
  "body_field k (Inr j) = jfield k j"
| "body_field k (Inl e) = None"

section \<open>An example environment\<close>

text \<open>
  A small instance of the library, to run the calls on concrete inputs: bodies are byte
  strings, the network answers every request with one fixed reply, the scanner splits
  the body at line feeds, and the parser knows a few documents.
\<close>

definition dq :: char where
  "dq = CHR 0x22"

definition lf :: char where
  "lf = CHR 0x0A"

definition token_bytes :: string where
  "token_bytes = ''['' @ [dq] @ ''hello'' @ [dq] @ '', [1,2,3]]''"

definition detail_bytes :: string where
  "detail_bytes = ''{'' @ [dq] @ ''detail'' @ [dq] @ '': '' @ [dq] @ ''bad model'' @ [dq] @ ''}''"

definition example_parse :: "string \<Rightarrow> error + json" where
  "example_parse data =
     (if data = token_bytes
      then Inr (JArray [JString ''hello'', JArray [JNum 1, JNum 2, JNum 3]])
      else if data = detail_bytes
      then Inr (JObject [(''detail'', JString ''bad model'')])
      else if data = ''{}'' then Inr (JObject [])
      else if data = ''[1]'' then Inr (JArray [JNum 1])
      else Inl (LibErr ''invalid character''))"

fun lines_of :: "string \<Rightarrow> string list" where
  "lines_of [] = []"
| "lines_of (c # cs) =
     (if c = lf then [] # lines_of cs
      else (case lines_of cs of [] \<Rightarrow> [ [c] ] | l # ls \<Rightarrow> (c # l) # ls))"

definition example_lib :: "(error + string http_response) \<Rightarrow> string golib" where
  "example_lib reply =
     \<lparr>http_Do = (\<lambda>rq. reply),
      io_ReadAll = (\<lambda>b. (b, None)),
      json_Decode = example_parse,
      json_Unmarshal = example_parse,
      bufio_Scan = (\<lambda>b. (lines_of b, None))\<rparr>"

definition example_request :: http_request where
  "example_request =
     \<lparr>Ctx = LiveContext ''background'', Method = ''POST'', URL = ''https://example.test/'',
      Header = [], ReqBody = JNull\<rparr>"

text \<open>The zero values of the request structs.\<close>

definition zero_ReaderRequest :: ReaderRequest where
  "zero_ReaderRequest =
     \<lparr>Reader_URL = '''', Reader_Viewport = None, Reader_InjectPageScript = '''',
      Reader_JSONResponse = False, Reader_BrowserEngine = '''', Reader_ContentFormat = '''',
      Reader_Timeout = 0, Reader_TargetSelector = '''', Reader_WaitForSelector = '''',
      Reader_RemoveSelector = '''', Reader_GatherLinks = '''', Reader_GatherImages = '''',
      Reader_ImageCaption = False, Reader_BypassCachedContent = False, Reader_WithIframe = False,
      Reader_TokenBudget = 0, Reader_RemoveAllImages = False, Reader_RespondWith = '''',
      Reader_SetCookie = '''', Reader_ProxyURL = '''', Reader_ProxyCountry = '''', Reader_DNT = 0,
      Reader_NoGfm = '''', Reader_BrowserLocale = '''', Reader_RobotsTxt = '''',
      Reader_WithShadowDom = False, Reader_Base = '''', Reader_MdHeadingStyle = '''',
      Reader_MdHr = '''', Reader_MdBulletListMarker = '''', Reader_MdEmDelimiter = '''',
      Reader_MdStrongDelimiter = '''', Reader_MdLinkStyle = '''',
      Reader_MdLinkReferenceStyle = '''', Reader_EUCompliance = False\<rparr>"

definition zero_SearchRequest :: SearchRequest where
  "zero_SearchRequest =
     \<lparr>Search_Query = '''', Search_CountryCode = '''', Search_Location = '''',
      Search_LanguageCode = '''', Search_MaxResults = 0, Search_PageOffset = 0,
      Search_JSONResponse = False, Search_Site = '''', Search_WithLinksSummary = False,
      Search_WithImagesSummary = False, Search_RetainImages = '''', Search_NoCache = False,
      Search_WithGeneratedAlt = False, Search_RespondWith = '''', Search_WithFavicon = False,
      Search_ReturnFormat = '''', Search_Engine = '''', Search_WithFavicons = False,
      Search_Timeout = 0, Search_SetCookie = '''', Search_ProxyURL = '''', Search_Locale = '''',
      Search_EUCompliance = False\<rparr>"

definition zero_VLMRequest :: VLMRequest where
  "zero_VLMRequest = \<lparr>VLM_Model = '''', VLM_Messages = None, VLM_Stream = False\<rparr>"

definition zero_DeepSearchRequest :: DeepSearchRequest where
  "zero_DeepSearchRequest =
     \<lparr>DeepSearch_Model = '''', DeepSearch_Messages = None, DeepSearch_Stream = False,
      DeepSearch_ReasoningEffort = '''', DeepSearch_BudgetTokens = 0, DeepSearch_MaxAttempts = 0,
      DeepSearch_NoDirectAnswer = False, DeepSearch_MaxReturnedURLs = 0,
      DeepSearch_ResponseFormat = None, DeepSearch_BoostHostnames = None\<rparr>"

definition zero_ClassificationRequest :: ClassificationRequest where
  "zero_ClassificationRequest =
     \<lparr>Classification_Model = '''', Classification_ClassifierID = '''',
      Classification_Input = None, Classification_Labels = None\<rparr>"

section \<open>Properties\<close>

lemma map_of_filter_fst:
  "map_of xs k = (case filter (\<lambda>y. fst y = k) xs of [] \<Rightarrow> None | p # _ \<Rightarrow> Some (snd p))"
  by (induction xs) auto

lemma map_of_sort_key_fst: "map_of (sort_key fst xs) k = map_of xs k"
  by (simp only: map_of_filter_fst [of "sort_key fst xs"] map_of_filter_fst [of xs] sort_key_stable)

lemma jfield_Marshal_map: "jfield k (json_Marshal_map data) = map_of data k"
  by (simp add: json_Marshal_map_def map_of_sort_key_fst)

subsection \<open>Rerank: which field reaches the body\<close>

text \<open>
  C1 (as the code has it). The documents slot follows the length of
  \<^verbatim>\<open>DocumentsInput\<close>: a structured list with at least one element is the
  \<^verbatim>\<open>documents\<close> member of the body and the flat list is not; a nil or empty
  structured list leaves the flat list there. The query slot follows the pointer: a
  \<^verbatim>\<open>QueryInput\<close> that is not nil is the \<^verbatim>\<open>query\<close> member whatever it holds, and
  only the nil pointer leaves the \<^verbatim>\<open>Query\<close> string there.
\<close>

theorem C1_rerank_precedence:
  "(\<forall>q. Rerank_QueryInput r = Some q \<longrightarrow>
        body_field ''query'' (RerankRequest_MarshalJSON r) = Some (RerankInput_json q))
   \<and> (Rerank_QueryInput r = None \<longrightarrow>
        body_field ''query'' (RerankRequest_MarshalJSON r) = Some (JString (Rerank_Query r)))
   \<and> (\<forall>ds. Rerank_DocumentsInput r = Some ds \<and> ds \<noteq> [] \<longrightarrow>
        body_field ''documents'' (RerankRequest_MarshalJSON r) = Some (JArray (map RerankInput_json ds))
        \<and> body_field ''documents'' (RerankRequest_MarshalJSON r)
            \<noteq> Some (marshal_slice JString (Rerank_Documents r)))
   \<and> (Rerank_DocumentsInput r = None \<or> Rerank_DocumentsInput r = Some [] \<longrightarrow>
        body_field ''documents'' (RerankRequest_MarshalJSON r)
          = Some (marshal_slice JString (Rerank_Documents r)))"
proof -
  have q: "body_field ''query'' (RerankRequest_MarshalJSON r)
           = Some (case Rerank_QueryInput r of Some q \<Rightarrow> RerankInput_json q
                   | None \<Rightarrow> JString (Rerank_Query r))"
    by (simp add: RerankRequest_MarshalJSON_def Let_def jfield_Marshal_map update_conv'
        split: option.splits)
  have d: "body_field ''documents'' (RerankRequest_MarshalJSON r)
           = Some (if go_len (Rerank_DocumentsInput r) > 0
                   then marshal_slice RerankInput_json (Rerank_DocumentsInput r)
                   else marshal_slice JString (Rerank_Documents r))"
    by (simp add: RerankRequest_MarshalJSON_def Let_def jfield_Marshal_map update_conv'
        split: option.splits)
  have ne: "JArray (map RerankInput_json ds) \<noteq> marshal_slice JString docs" if "ds \<noteq> []" for ds docs
  proof (cases docs)
    case None
    then show ?thesis by simp
  next
    case (Some xs)
    show ?thesis
    proof (cases ds)
      case Nil
      with that show ?thesis by simp
    next
      case (Cons a as)
      then show ?thesis using Some
        by (cases xs) (simp_all add: RerankInput_json_def)
    qed
  qed
  show ?thesis
    using q d ne by auto
qed

theorem C1_rerank_precedence_witness:
  "body_field ''documents'' (RerankRequest_MarshalJSON
      \<lparr>Rerank_Model = ''jina-reranker-m0'', Rerank_Query = ''q'',
       Rerank_Documents = Some [''flat''],
       Rerank_QueryInput = Some \<lparr>RerankInput_Text = ''sq'', RerankInput_Image = ''''\<rparr>,
       Rerank_DocumentsInput = Some [\<lparr>RerankInput_Text = '''', RerankInput_Image = ''img''\<rparr>],
       Rerank_TopN = 2, Rerank_ReturnDocuments = Some False\<rparr>)
     = Some (JArray [JObject [(''image'', JString ''img'')]])
   \<and> body_field ''query'' (RerankRequest_MarshalJSON
      \<lparr>Rerank_Model = ''jina-reranker-m0'', Rerank_Query = ''q'',
       Rerank_Documents = Some [''flat''],
       Rerank_QueryInput = Some \<lparr>RerankInput_Text = ''sq'', RerankInput_Image = ''''\<rparr>,
       Rerank_DocumentsInput = Some [\<lparr>RerankInput_Text = '''', RerankInput_Image = ''img''\<rparr>],
       Rerank_TopN = 2, Rerank_ReturnDocuments = Some False\<rparr>)
     = Some (JObject [(''text'', JString ''sq'')])
   \<and> body_field ''documents'' (RerankRequest_MarshalJSON
      \<lparr>Rerank_Model = ''jina-reranker-v3'', Rerank_Query = ''q'',
       Rerank_Documents = Some [''flat''], Rerank_QueryInput = None,
       Rerank_DocumentsInput = Some [], Rerank_TopN = 0, Rerank_ReturnDocuments = None\<rparr>)
     = Some (JArray [JString ''flat''])
   \<and> body_field ''query'' (RerankRequest_MarshalJSON
      \<lparr>Rerank_Model = ''jina-reranker-v3'', Rerank_Query = ''q'',
       Rerank_Documents = Some [''flat''], Rerank_QueryInput = None,
       Rerank_DocumentsInput = Some [], Rerank_TopN = 0, Rerank_ReturnDocuments = None\<rparr>)
     = Some (JString ''q'')"
  using C1_rerank_precedence [of
      "\<lparr>Rerank_Model = ''jina-reranker-m0'', Rerank_Query = ''q'',
       Rerank_Documents = Some [''flat''],
       Rerank_QueryInput = Some \<lparr>RerankInput_Text = ''sq'', RerankInput_Image = ''''\<rparr>,
       Rerank_DocumentsInput = Some [\<lparr>RerankInput_Text = '''', RerankInput_Image = ''img''\<rparr>],
       Rerank_TopN = 2, Rerank_ReturnDocuments = Some False\<rparr>"]
    C1_rerank_precedence [of
      "\<lparr>Rerank_Model = ''jina-reranker-v3'', Rerank_Query = ''q'',
       Rerank_Documents = Some [''flat''], Rerank_QueryInput = None,
       Rerank_DocumentsInput = Some [], Rerank_TopN = 0, Rerank_ReturnDocuments = None\<rparr>"]
  by (simp add: RerankInput_json_def)

text \<open>
  C1 as the specification states it fails on the query slot: a \<^verbatim>\<open>QueryInput\<close> that is
  present and empty (a pointer to a struct with no text and no image) is still encoded,
  as the empty object, and the \<^verbatim>\<open>Query\<close> string \<^verbatim>\<open>q\<close> is not used.
\<close>

theorem C1_present_empty_query_counterexample:
  "body_field ''query'' (RerankRequest_MarshalJSON
      \<lparr>Rerank_Model = ''jina-reranker-v3'', Rerank_Query = ''q'',
       Rerank_Documents = Some [''d''],
       Rerank_QueryInput = Some \<lparr>RerankInput_Text = '''', RerankInput_Image = ''''\<rparr>,
       Rerank_DocumentsInput = None, Rerank_TopN = 0, Rerank_ReturnDocuments = None\<rparr>)
   = Some (JObject [])
   \<and> body_field ''query'' (RerankRequest_MarshalJSON
      \<lparr>Rerank_Model = ''jina-reranker-v3'', Rerank_Query = ''q'',
       Rerank_Documents = Some [''d''],
       Rerank_QueryInput = Some \<lparr>RerankInput_Text = '''', RerankInput_Image = ''''\<rparr>,
       Rerank_DocumentsInput = None, Rerank_TopN = 0, Rerank_ReturnDocuments = None\<rparr>)
   \<noteq> Some (JString ''q'')"
  by (simp add: RerankRequest_MarshalJSON_def Let_def json_Marshal_map_def RerankInput_json_def)

subsection \<open>Classification input encoding\<close>

text \<open>
  C9. A classification input whose image is empty is encoded as the bare JSON string of
  its text, never as an object; the empty text is encoded as the empty JSON string; an
  input with an image is encoded as the object with the single key \<^verbatim>\<open>image\<close>.
\<close>

theorem C9_text_only_is_bare_string:
  "(ClassificationInput_Image c = '''' \<longrightarrow>
       ClassificationInput_MarshalJSON c = Inr (JString (ClassificationInput_Text c))
       \<and> (\<forall>kv. ClassificationInput_MarshalJSON c \<noteq> Inr (JObject kv)))
   \<and> ClassificationInput_MarshalJSON (NewClassificationInputText '''') = Inr (JString '''')
   \<and> (ClassificationInput_Image c \<noteq> '''' \<longrightarrow>
       ClassificationInput_MarshalJSON c
         = Inr (JObject [(''image'', JString (ClassificationInput_Image c))]))"
  by (simp add: ClassificationInput_MarshalJSON_def NewClassificationInputText_def
      json_Marshal_map_def)

theorem C9_text_only_is_bare_string_witness:
  "ClassificationInput_MarshalJSON \<lparr>ClassificationInput_Text = ''good'', ClassificationInput_Image = ''''\<rparr>
     = Inr (JString ''good'')
   \<and> ClassificationInput_MarshalJSON
       \<lparr>ClassificationInput_Text = ''t'', ClassificationInput_Image = ''http://i''\<rparr>
     = Inr (JObject [(''image'', JString ''http://i'')])"
  using C9_text_only_is_bare_string
          [of "\<lparr>ClassificationInput_Text = ''good'', ClassificationInput_Image = ''''\<rparr>"]
        C9_text_only_is_bare_string
          [of "\<lparr>ClassificationInput_Text = ''t'', ClassificationInput_Image = ''http://i''\<rparr>"]
  by simp

subsection \<open>Token decoding\<close>

lemma fill_IDs_nums:
  "fill_IDs (pre @ replicate (length ns) 0) (length pre) (map JNum ns) = (pre @ map go_int ns, None)"
proof (induction ns arbitrary: pre)
  case Nil
  then show ?case by simp
next
  case (Cons n ns)
  have "(pre @ replicate (length (n # ns)) 0)[length pre := go_int n]
        = (pre @ [go_int n]) @ replicate (length ns) 0"
    by (simp add: list_update_append)
  then show ?case
    using Cons.IH [of "pre @ [go_int n]"] by simp
qed

lemma fill_IDs_ok_nums: "snd (fill_IDs ids i xs) = None \<Longrightarrow> \<exists>ns. xs = map JNum ns"
proof (induction ids i xs rule: fill_IDs.induct)
  case (1 ids i)
  then show ?case by simp
next
  case (2 ids i idFloat rest)
  then obtain ns where "rest = map JNum ns" by auto
  then have "JNum idFloat # rest = map JNum (idFloat # ns)" by simp
  then show ?case by (rule exI)
qed simp_all

lemma Token_UnmarshalJSON_pair:
  assumes "json_Unmarshal lib data = Inr (JArray [JString s, JArray (map JNum ns)])"
  shows "Token_UnmarshalJSON lib t data = (\<lparr>Token_Text = s, Token_IDs = Some (map go_int ns)\<rparr>, None)"
  using assms fill_IDs_nums [of "[]" ns]
  by (simp add: Token_UnmarshalJSON_def)

lemma Token_UnmarshalJSON_ok_shape:
  assumes "snd (Token_UnmarshalJSON lib t data) = None"
  shows "\<exists>s ns. json_Unmarshal lib data = Inr (JArray [JString s, JArray (map JNum ns)])"
proof (cases "json_Unmarshal lib data")
  case (Inl e)
  with assms show ?thesis by (simp add: Token_UnmarshalJSON_def)
next
  case (Inr v)
  show ?thesis
  proof (cases "into_slice v")
    case (Inl e)
    with assms Inr show ?thesis by (simp add: Token_UnmarshalJSON_def)
  next
    case r: (Inr raw)
    from assms Inr r obtain raw0 raw1 where raw: "raw = Some [raw0, raw1]"
      by (auto simp: Token_UnmarshalJSON_def split: option.splits list.splits)
    from assms Inr r raw obtain s where s: "raw0 = JString s"
      by (cases raw0) (auto simp: Token_UnmarshalJSON_def)
    from assms Inr r raw s obtain idsRaw where ids: "raw1 = JArray idsRaw"
      by (cases raw1) (auto simp: Token_UnmarshalJSON_def)
    from assms Inr r raw s ids have "snd (fill_IDs (replicate (length idsRaw) 0) 0 idsRaw) = None"
      by (auto simp: Token_UnmarshalJSON_def split: prod.splits)
    then obtain ns where "idsRaw = map JNum ns"
      using fill_IDs_ok_nums by blast
    moreover from r raw have "v = JArray [raw0, raw1]"
      by (cases v) auto
    ultimately show ?thesis using Inr s ids by auto
  qed
qed

text \<open>
  C5. When the bytes parse to the pair \<^verbatim>\<open>["hello", [1,2,3]]\<close>, decoding leaves the
  token with text \<^verbatim>\<open>hello\<close> and ids 1, 2, 3 and returns no error. When the bytes do not
  parse to an array of exactly two elements, a string and an array of numbers,
  \<^verbatim>\<open>Token.UnmarshalJSON\<close> returns an error.
\<close>

theorem C5_token_pair_decoding:
  "(json_Unmarshal lib data = Inr (JArray [JString ''hello'', JArray [JNum 1, JNum 2, JNum 3]]) \<longrightarrow>
      Token_UnmarshalJSON lib t data = (\<lparr>Token_Text = ''hello'', Token_IDs = Some [1, 2, 3]\<rparr>, None))
   \<and> ((\<nexists>s ns. json_Unmarshal lib data = Inr (JArray [JString s, JArray (map JNum ns)])) \<longrightarrow>
      snd (Token_UnmarshalJSON lib t data) \<noteq> None)"
proof -
  have "Token_UnmarshalJSON lib t data = (\<lparr>Token_Text = ''hello'', Token_IDs = Some [1, 2, 3]\<rparr>, None)"
    if "json_Unmarshal lib data = Inr (JArray [JString ''hello'', JArray [JNum 1, JNum 2, JNum 3]])"
    using Token_UnmarshalJSON_pair [of lib data "''hello''" "[1, 2, 3]" t] that
    by (simp add: go_int_def)
  then show ?thesis
    using Token_UnmarshalJSON_ok_shape by blast
qed

theorem C5_token_pair_decoding_witness:
  "Token_UnmarshalJSON (example_lib (Inl (LibErr ''unused''))) \<lparr>Token_Text = '''', Token_IDs = None\<rparr>
      token_bytes
     = (\<lparr>Token_Text = ''hello'', Token_IDs = Some [1, 2, 3]\<rparr>, None)
   \<and> snd (Token_UnmarshalJSON (example_lib (Inl (LibErr ''unused'')))
        \<lparr>Token_Text = '''', Token_IDs = None\<rparr> ''[1]'') \<noteq> None"
proof -
  have a: "json_Unmarshal (example_lib (Inl (LibErr ''unused''))) token_bytes
        = Inr (JArray [JString ''hello'', JArray [JNum 1, JNum 2, JNum 3]])"
    by (simp add: example_lib_def example_parse_def)
  have b: "\<nexists>s ns. json_Unmarshal (example_lib (Inl (LibErr ''unused''))) ''[1]''
        = Inr (JArray [JString s, JArray (map JNum ns)])"
    by (simp add: example_lib_def example_parse_def token_bytes_def detail_bytes_def dq_def)
  show ?thesis
    using C5_token_pair_decoding [of "example_lib (Inl (LibErr ''unused''))" token_bytes
            "\<lparr>Token_Text = '''', Token_IDs = None\<rparr>"]
          C5_token_pair_decoding [of "example_lib (Inl (LibErr ''unused''))" "''[1]''"
            "\<lparr>Token_Text = '''', Token_IDs = None\<rparr>"]
          a b
    by blast
qed

subsection \<open>Validation before the network\<close>

text \<open>
  C8. A Reader call with an empty URL and a Search call with an empty query return the
  validation error at once, whatever the library and the network would do: the log of
  requests sent is the one the call started with.
\<close>

theorem C8_validation_before_network:
  "(Reader_URL rreq = '''' \<longrightarrow>
      Reader lib into cl ctx rreq net = (Inl (Errorf ''URL is required'' []), net))
   \<and> (Search_Query sreq = '''' \<longrightarrow>
      Search lib into' cl ctx sreq net = (Inl (Errorf ''query is required'' []), net))"
  by (simp add: Reader_def Search_def)

theorem C8_validation_before_network_witness:
  "Reader (example_lib (Inr \<lparr>StatusCode = 200, Body = ''ok''\<rparr>)) Inr (NewClient [])
      (LiveContext ''background'') zero_ReaderRequest []
     = (Inl (Errorf ''URL is required'' []), [])
   \<and> Search (example_lib (Inr \<lparr>StatusCode = 200, Body = ''ok''\<rparr>)) Inr (NewClient [])
      (LiveContext ''background'') zero_SearchRequest []
     = (Inl (Errorf ''query is required'' []), [])"
  using C8_validation_before_network [of zero_ReaderRequest
          "example_lib (Inr \<lparr>StatusCode = 200, Body = ''ok''\<rparr>)" Inr "NewClient []"
          "LiveContext ''background''" "[]" zero_SearchRequest Inr]
  by (simp add: zero_ReaderRequest_def zero_SearchRequest_def)

subsection \<open>Streaming\<close>

lemma doStream_scan_payloads:
  "doStream_scan callback lines s = payload_scan callback (data_payloads lines) s"
  by (induction callback lines s rule: doStream_scan.induct)
     (auto simp: data_payloads_def Let_def split: prod.splits option.splits)

lemma data_payloads_append: "data_payloads (xs @ ys) = data_payloads xs @ data_payloads ys"
  by (simp add: data_payloads_def)

lemma data_payloads_ignored:
  "\<forall>l\<in>set ign. \<not> HasPrefix l ''data: '' \<Longrightarrow> data_payloads ign = []"
  by (simp add: data_payloads_def)

lemma payload_scan_traced_good:
  assumes "\<forall>d\<in>set good. d \<noteq> ''[DONE]'' \<and> (\<forall>s. fst (callback s d) = None)"
  shows "\<exists>s'. payload_scan (traced callback) (good @ ds) (s, calls)
              = payload_scan (traced callback) ds (s', calls @ good)"
  using assms
proof (induction good arbitrary: s calls)
  case Nil
  show ?case by (rule exI [of _ s]) simp
next
  case (Cons d good)
  obtain s1 where s1: "callback s d = (None, s1)"
    using Cons.prems by (cases "callback s d") (metis fst_conv list.set_intros(1))
  have "payload_scan (traced callback) ((d # good) @ ds) (s, calls)
        = payload_scan (traced callback) (good @ ds) (s1, calls @ [d])"
    using Cons.prems s1 by (simp add: traced_def)
  moreover obtain s' where "payload_scan (traced callback) (good @ ds) (s1, calls @ [d])
        = payload_scan (traced callback) ds (s', (calls @ [d]) @ good)"
    using Cons.IH [of s1 "calls @ [d]"] Cons.prems by auto
  ultimately show ?case by auto
qed

lemma doStream_ok:
  assumes "http_Do lib req = Inr resp" "StatusCode resp = 200"
    and "bufio_Scan lib (Body resp) = (lines, scanner_Err)"
  shows "doStream lib req callback net s =
     (case payload_scan callback (data_payloads lines) s of
        (Some r, s') \<Rightarrow> (r, net @ [req], s')
      | (None, s') \<Rightarrow>
          (if (case scanner_Err of None \<Rightarrow> False | Some e \<Rightarrow> errors_Is e io_EOF) then None
           else scanner_Err, net @ [req], s'))"
  using assms
  by (auto simp: doStream_def client_Do_def doStream_scan_payloads split: prod.splits option.splits)

text \<open>
  C2. On a 200 reply whose lines are \<^verbatim>\<open>data: chunk1\<close>, \<^verbatim>\<open>data: chunk2\<close>,
  \<^verbatim>\<open>data: [DONE]\<close>, with any lines that lack the prefix between them and any lines
  at all after the sentinel, \<^verbatim>\<open>doStream\<close> invokes the callback on chunk1 and then on
  chunk2 and on nothing else, and returns nil, when the callback returns nil on both.
  The lines without the prefix and the lines after the sentinel leave no trace.
\<close>

theorem C2_two_chunks_then_done:
  assumes "http_Do lib req = Inr resp" and "StatusCode resp = 200"
    and "bufio_Scan lib (Body resp)
           = (ign0 @ [''data: '' @ chunk1] @ ign1 @ [''data: '' @ chunk2] @ ign2
                @ [''data: [DONE]''] @ rest, scanner_Err)"
    and "\<forall>l\<in>set (ign0 @ ign1 @ ign2). \<not> HasPrefix l ''data: ''"
    and "chunk1 \<noteq> ''[DONE]''" and "chunk2 \<noteq> ''[DONE]''"
    and "callback s chunk1 = (None, s1)" and "callback s1 chunk2 = (None, s2)"
  shows "doStream lib req (traced callback) net (s, []) = (None, net @ [req], (s2, [chunk1, chunk2]))"
proof -
  let ?lines = "ign0 @ [''data: '' @ chunk1] @ ign1 @ [''data: '' @ chunk2] @ ign2
                @ [''data: [DONE]''] @ rest"
  have i: "data_payloads ign0 = []" "data_payloads ign1 = []" "data_payloads ign2 = []"
    using assms(4) by (simp_all add: data_payloads_ignored)
  have c: "data_payloads [''data: '' @ chunk1] = [chunk1]" "data_payloads [''data: '' @ chunk2] = [chunk2]"
    "data_payloads [''data: [DONE]''] = [''[DONE]'']"
    by (simp_all add: data_payloads_def HasPrefix_def TrimPrefix_def)
  have "data_payloads ?lines = data_payloads ign0 @ data_payloads [''data: '' @ chunk1]
          @ data_payloads ign1 @ data_payloads [''data: '' @ chunk2] @ data_payloads ign2
          @ data_payloads [''data: [DONE]''] @ data_payloads rest"
    by (simp only: data_payloads_append)
  then have "data_payloads ?lines = [] @ [chunk1] @ [] @ [chunk2] @ [] @ [''[DONE]''] @ data_payloads rest"
    by (simp only: i c)
  then have p: "data_payloads ?lines = chunk1 # chunk2 # ''[DONE]'' # data_payloads rest"
    by (simp only: append_Nil append_Cons)
  have "payload_scan (traced callback) (data_payloads ?lines) (s, [])
        = (Some None, (s2, [chunk1, chunk2]))"
    unfolding p using assms(5-8) by (simp add: traced_def)
  then show ?thesis
    using doStream_ok [OF assms(1,2,3), of "traced callback" net "(s, [])"] by simp
qed

theorem C2_two_chunks_then_done_witness:
  "doStream
     (example_lib (Inr \<lparr>StatusCode = 200,
        Body = ''data: {a}'' @ [lf, lf] @ ''data: {b}'' @ [lf] @ ''event: x'' @ [lf]
               @ ''data: [DONE]'' @ [lf] @ ''data: {c}'' @ [lf]\<rparr>))
     example_request (traced (\<lambda>n d. (None, Suc n))) [] (0, [])
   = (None, [example_request], (2, [''{a}'', ''{b}'']))"
proof -
  let ?resp = "\<lparr>StatusCode = 200,
        Body = ''data: {a}'' @ [lf, lf] @ ''data: {b}'' @ [lf] @ ''event: x'' @ [lf]
               @ ''data: [DONE]'' @ [lf] @ ''data: {c}'' @ [lf]\<rparr>"
  have l: "bufio_Scan (example_lib (Inr ?resp)) (Body ?resp)
        = ([] @ [''data: '' @ ''{a}''] @ [''''] @ [''data: '' @ ''{b}''] @ [''event: x'']
             @ [''data: [DONE]''] @ [''data: {c}''], None)"
    by (simp add: example_lib_def lf_def)
  have "doStream (example_lib (Inr ?resp)) example_request (traced (\<lambda>n d. (None, Suc n))) [] (0, [])
        = (None, [] @ [example_request], (Suc (Suc 0), [''{a}'', ''{b}'']))"
    by (rule C2_two_chunks_then_done [OF _ _ l])
       (simp_all add: example_lib_def HasPrefix_def)
  then show ?thesis by simp
qed

text \<open>
  C6. On a 200 reply whose lines never carry the sentinel and whose read ends cleanly
  (the scanner reports no error, or the end-of-input error), with N payloads on which
  the callback returns nil, \<^verbatim>\<open>doStream\<close> returns nil and has invoked the callback on
  exactly these N payloads, in order.
\<close>

theorem C6_end_without_done:
  assumes "http_Do lib req = Inr resp" and "StatusCode resp = 200"
    and "bufio_Scan lib (Body resp) = (lines, scanner_Err)"
    and "scanner_Err = None \<or> scanner_Err = Some io_EOF"
    and "\<forall>d\<in>set (data_payloads lines). d \<noteq> ''[DONE]'' \<and> (\<forall>s. fst (callback s d) = None)"
    and "length (data_payloads lines) = N"
  shows "fst (doStream lib req (traced callback) net (s, [])) = None
       \<and> snd (snd (snd (doStream lib req (traced callback) net (s, [])))) = data_payloads lines
       \<and> length (snd (snd (snd (doStream lib req (traced callback) net (s, []))))) = N"
proof -
  obtain s' where "payload_scan (traced callback) (data_payloads lines @ []) (s, [])
        = payload_scan (traced callback) [] (s', [] @ data_payloads lines)"
    using payload_scan_traced_good [OF assms(5)] by blast
  then have "payload_scan (traced callback) (data_payloads lines) (s, [])
        = (None, (s', data_payloads lines))"
    by simp
  moreover have "\<not> (case scanner_Err of None \<Rightarrow> False | Some e \<Rightarrow> errors_Is e io_EOF)
      \<Longrightarrow> scanner_Err = None"
    using assms(4) by (auto simp: io_EOF_def)
  ultimately show ?thesis
    using doStream_ok [OF assms(1,2,3), of "traced callback" net "(s, [])"] assms(6)
    by (auto split: if_splits)
qed

theorem C6_end_without_done_witness:
  "fst (doStream
     (example_lib (Inr \<lparr>StatusCode = 200,
        Body = ''data: {a}'' @ [lf, lf] @ ''data: {b}'' @ [lf] @ ''data: {c}''\<rparr>))
     example_request (traced (\<lambda>n d. (None, Suc n))) [] (0, [])) = None
   \<and> snd (snd (snd (doStream
     (example_lib (Inr \<lparr>StatusCode = 200,
        Body = ''data: {a}'' @ [lf, lf] @ ''data: {b}'' @ [lf] @ ''data: {c}''\<rparr>))
     example_request (traced (\<lambda>n d. (None, Suc n))) [] (0, [])))) = [''{a}'', ''{b}'', ''{c}'']"
proof -
  let ?resp = "\<lparr>StatusCode = 200,
        Body = ''data: {a}'' @ [lf, lf] @ ''data: {b}'' @ [lf] @ ''data: {c}''\<rparr>"
  have l: "bufio_Scan (example_lib (Inr ?resp)) (Body ?resp)
        = ([''data: {a}'', '''', ''data: {b}'', ''data: {c}''], None)"
    by (simp add: example_lib_def lf_def)
  have p: "data_payloads [''data: {a}'', '''', ''data: {b}'', ''data: {c}''] = [''{a}'', ''{b}'', ''{c}'']"
    by (simp add: data_payloads_def HasPrefix_def TrimPrefix_def)
  show ?thesis
    using C6_end_without_done [OF _ _ l, of example_request "(\<lambda>n d. (None, Suc n))" 3 "[]" 0]
    by (simp add: example_lib_def p)
qed

lemma marshal_all_Inr: "(\<And>x. f x = Inr (g x)) \<Longrightarrow> marshal_all f xs = Inr (map g xs)"
  by (induction xs) simp_all

lemma VLMMessage_json_Inr:
  "VLMMessage_json m =
     Inr (JObject [(''role'', JString (Message_Role m)),
                   (''content'', if go_len (Content_Parts (Message_Content m)) > 0
                                 then marshal_slice VLMContentPart_json (Content_Parts (Message_Content m))
                                 else JString (Content_Text (Message_Content m)))])"
  by (simp add: VLMMessage_json_def VLMMessageContent_MarshalJSON_def)

lemma messages_json_Inr: "\<exists>j. marshal_slice_with VLMMessage_json ms = Inr j"
proof (cases ms)
  case None
  then show ?thesis by simp
next
  case (Some xs)
  then show ?thesis
    using marshal_all_Inr [of VLMMessage_json _ xs, OF VLMMessage_json_Inr] by simp
qed

lemma VLMRequest_json_Inr:
  "\<exists>messages. VLMRequest_json r =
     Inr (JObject ([(''model'', JString (VLM_Model r)), (''messages'', messages)]
                  @ omitempty_bool ''stream'' (VLM_Stream r)))"
  using messages_json_Inr [of "VLM_Messages r"] by (auto simp: VLMRequest_json_def)

lemma VLMStream_sends:
  assumes "ctx \<noteq> NilContext"
  shows "\<exists>messages. VLMStream lib into cl ctx req callback net s =
           doStream lib
             \<lparr>Ctx = ctx, Method = ''POST'',
              URL = ''https://api-beta-vlm.jina.ai/v1/chat/completions'',
              Header = [(''Content-Type'', ''application/json''), (''Accept'', ''text/event-stream'')]
                       @ (if APIKey (cfg cl) \<noteq> ''''
                          then [(''Authorization'', ''Bearer '' @ APIKey (cfg cl))] else []),
              ReqBody = JObject [(''model'', JString (if VLM_Model req = '''' then VLMModelDefault
                                                      else VLM_Model req)),
                                 (''messages'', messages), (''stream'', JBool True)]\<rparr>
             (\<lambda>s data. case Unmarshal_into lib into data of
                          Inl err \<Rightarrow> (Some (Wrapf ''failed to unmarshal chunk: %w'' err), s)
                        | Inr chunk \<Rightarrow> callback s chunk)
             net s"
proof -
  let ?r = "(if VLM_Model req = '''' then req\<lparr>VLM_Model := VLMModelDefault\<rparr> else req)\<lparr>VLM_Stream := True\<rparr>"
  obtain messages where j: "VLMRequest_json ?r =
     Inr (JObject ([(''model'', JString (VLM_Model ?r)), (''messages'', messages)]
                  @ omitempty_bool ''stream'' (VLM_Stream ?r)))"
    using VLMRequest_json_Inr [of ?r] by blast
  show ?thesis
    apply (rule exI [of _ messages])
    using assms j
    apply (simp add: VLMStream_def Let_def NewRequestWithContext_def Header_Set_def omitempty_bool_def)
    done
qed

lemma payload_scan_chunks_good:
  assumes "list_all2 (\<lambda>d c. d \<noteq> ''[DONE]'' \<and> Unmarshal_into lib into d = Inr c
                             \<and> (\<forall>s. fst (callback s c) = None)) good chunks"
  shows "\<exists>s'. payload_scan
                (\<lambda>s data. case Unmarshal_into lib into data of
                             Inl err \<Rightarrow> (Some (Wrapf ''failed to unmarshal chunk: %w'' err), s)
                           | Inr chunk \<Rightarrow> traced callback s chunk)
                (good @ ds) (s, calls)
            = payload_scan
                (\<lambda>s data. case Unmarshal_into lib into data of
                             Inl err \<Rightarrow> (Some (Wrapf ''failed to unmarshal chunk: %w'' err), s)
                           | Inr chunk \<Rightarrow> traced callback s chunk)
                ds (s', calls @ chunks)"
  using assms
proof (induction good chunks arbitrary: s calls rule: list_all2_induct)
  case Nil
  show ?case by (rule exI [of _ s]) simp
next
  case (Cons d good c chunks)
  let ?cb = "\<lambda>s data. case Unmarshal_into lib into data of
                             Inl err \<Rightarrow> (Some (Wrapf ''failed to unmarshal chunk: %w'' err), s)
                           | Inr chunk \<Rightarrow> traced callback s chunk"
  obtain s1 where s1: "callback s c = (None, s1)"
    using Cons.hyps(1) by (cases "callback s c") (metis fst_conv)
  have "payload_scan ?cb ((d # good) @ ds) (s, calls) = payload_scan ?cb (good @ ds) (s1, calls @ [c])"
    using Cons.hyps(1) s1 by (simp add: traced_def)
  moreover obtain s' where "payload_scan ?cb (good @ ds) (s1, calls @ [c])
        = payload_scan ?cb ds (s', (calls @ [c]) @ chunks)"
    using Cons.IH [of s1 "calls @ [c]"] by auto
  ultimately show ?case by auto
qed

text \<open>
  C7. \<^verbatim>\<open>VLMStream\<close> on a 200 reply whose first k-1 payloads decode to chunks that the
  caller's callback accepts: when the k-th payload fails to decode, the call returns the
  decode error wrapped as \<^verbatim>\<open>failed to unmarshal chunk\<close> and the callback has been
  invoked on the k-1 chunks before it and on nothing else; when the k-th payload decodes
  and the callback returns an error on it, the call returns that error and the callback
  has been invoked on the k chunks and on nothing else. The lines after the k-th payload
  play no part.
\<close>

theorem C7_stream_stops_at_first_failure:
  assumes "ctx \<noteq> NilContext"
    and "\<forall>rq. http_Do lib rq = Inr resp" and "StatusCode resp = 200"
    and "bufio_Scan lib (Body resp) = (lines, scanner_Err)"
    and "data_payloads lines = good @ kth # rest" and "length good + 1 = k"
    and "list_all2 (\<lambda>d c. d \<noteq> ''[DONE]'' \<and> Unmarshal_into lib into d = Inr c
                           \<and> (\<forall>s. fst (callback s c) = None)) good chunks"
    and "kth \<noteq> ''[DONE]''"
  shows "(\<forall>e. Unmarshal_into lib into kth = Inl e \<longrightarrow>
            fst (VLMStream lib into cl ctx req (traced callback) net (s, []))
              = Some (Wrapf ''failed to unmarshal chunk: %w'' e)
            \<and> snd (snd (snd (VLMStream lib into cl ctx req (traced callback) net (s, [])))) = chunks
            \<and> length (snd (snd (snd (VLMStream lib into cl ctx req (traced callback) net (s, [])))))
                = k - 1)
       \<and> (\<forall>c e. Unmarshal_into lib into kth = Inr c \<and> (\<forall>s. fst (callback s c) = Some e) \<longrightarrow>
            fst (VLMStream lib into cl ctx req (traced callback) net (s, [])) = Some e
            \<and> snd (snd (snd (VLMStream lib into cl ctx req (traced callback) net (s, []))))
                = chunks @ [c])"
proof -
  let ?cb = "\<lambda>s data. case Unmarshal_into lib into data of
                             Inl err \<Rightarrow> (Some (Wrapf ''failed to unmarshal chunk: %w'' err), s)
                           | Inr chunk \<Rightarrow> traced callback s chunk"
  obtain httpReq where v: "VLMStream lib into cl ctx req (traced callback) net (s, [])
        = doStream lib httpReq ?cb net (s, [])"
    using VLMStream_sends [OF assms(1), of lib into cl req "traced callback" net "(s, [])"] by blast
  have h: "http_Do lib httpReq = Inr resp"
    using assms(2) by simp
  have d: "doStream lib httpReq ?cb net (s, []) =
     (case payload_scan ?cb (good @ kth # rest) (s, []) of
        (Some r, s') \<Rightarrow> (r, net @ [httpReq], s')
      | (None, s') \<Rightarrow>
          (if (case scanner_Err of None \<Rightarrow> False | Some e \<Rightarrow> errors_Is e io_EOF) then None
           else scanner_Err, net @ [httpReq], s'))"
    using doStream_ok [OF h assms(3,4), of ?cb net "(s, [])"] assms(5) by simp
  obtain s' where g: "payload_scan ?cb (good @ kth # rest) (s, []) = payload_scan ?cb (kth # rest) (s', chunks)"
    using payload_scan_chunks_good [OF assms(7), of "kth # rest" s "[]"] by auto
  have len: "length chunks = k - 1"
    using assms(6,7) by (auto dest: list_all2_lengthD)
  have a: "fst (VLMStream lib into cl ctx req (traced callback) net (s, []))
              = Some (Wrapf ''failed to unmarshal chunk: %w'' e)
            \<and> snd (snd (snd (VLMStream lib into cl ctx req (traced callback) net (s, [])))) = chunks"
    if "Unmarshal_into lib into kth = Inl e" for e
    using that assms(8) by (simp add: v d g)
  have b: "fst (VLMStream lib into cl ctx req (traced callback) net (s, [])) = Some e
            \<and> snd (snd (snd (VLMStream lib into cl ctx req (traced callback) net (s, []))))
                = chunks @ [c]"
    if u: "Unmarshal_into lib into kth = Inr c" and f: "\<forall>s. fst (callback s c) = Some e" for c e
  proof -
    obtain s2 where "callback s' c = (Some e, s2)"
      using f by (cases "callback s' c") (metis fst_conv)
    then show ?thesis
      using u assms(8) by (simp add: v d g traced_def)
  qed
  show ?thesis
    using a b len by auto
qed

theorem C7_stream_stops_at_first_failure_witness:
  "fst (VLMStream
          (example_lib (Inr \<lparr>StatusCode = 200,
             Body = ''data: {}'' @ [lf] @ ''data: nonsense'' @ [lf] @ ''data: {}''\<rparr>))
          Inr (NewClient []) (LiveContext ''background'') zero_VLMRequest
          (traced (\<lambda>n c. (None, Suc n))) [] (0, []))
     = Some (Wrapf ''failed to unmarshal chunk: %w'' (LibErr ''invalid character''))
   \<and> snd (snd (snd (VLMStream
          (example_lib (Inr \<lparr>StatusCode = 200,
             Body = ''data: {}'' @ [lf] @ ''data: nonsense'' @ [lf] @ ''data: {}''\<rparr>))
          Inr (NewClient []) (LiveContext ''background'') zero_VLMRequest
          (traced (\<lambda>n c. (None, Suc n))) [] (0, []))))
     = [JObject []]
   \<and> fst (VLMStream
          (example_lib (Inr \<lparr>StatusCode = 200,
             Body = ''data: {}'' @ [lf] @ ''data: [1]'' @ [lf] @ ''data: {}''\<rparr>))
          Inr (NewClient []) (LiveContext ''background'') zero_VLMRequest
          (traced (\<lambda>n c. (if c = JArray [JNum 1] then Some (LibErr ''stop'') else None, Suc n)))
          [] (0, []))
     = Some (LibErr ''stop'')
   \<and> snd (snd (snd (VLMStream
          (example_lib (Inr \<lparr>StatusCode = 200,
             Body = ''data: {}'' @ [lf] @ ''data: [1]'' @ [lf] @ ''data: {}''\<rparr>))
          Inr (NewClient []) (LiveContext ''background'') zero_VLMRequest
          (traced (\<lambda>n c. (if c = JArray [JNum 1] then Some (LibErr ''stop'') else None, Suc n)))
          [] (0, []))))
     = [JObject [], JArray [JNum 1]]"
proof -
  let ?resp1 = "\<lparr>StatusCode = 200,
             Body = ''data: {}'' @ [lf] @ ''data: nonsense'' @ [lf] @ ''data: {}''\<rparr>"
  let ?resp2 = "\<lparr>StatusCode = 200,
             Body = ''data: {}'' @ [lf] @ ''data: [1]'' @ [lf] @ ''data: {}''\<rparr>"
  have ctx: "LiveContext ''background'' \<noteq> NilContext" by simp
  have d1: "\<forall>rq. http_Do (example_lib (Inr ?resp1)) rq = Inr ?resp1"
    and d2: "\<forall>rq. http_Do (example_lib (Inr ?resp2)) rq = Inr ?resp2"
    by (simp_all add: example_lib_def)
  have st: "StatusCode ?resp1 = 200" "StatusCode ?resp2 = 200" by simp_all
  have l1: "bufio_Scan (example_lib (Inr ?resp1)) (Body ?resp1)
              = ([''data: {}'', ''data: nonsense'', ''data: {}''], None)"
    and l2: "bufio_Scan (example_lib (Inr ?resp2)) (Body ?resp2)
              = ([''data: {}'', ''data: [1]'', ''data: {}''], None)"
    by (simp_all add: example_lib_def lf_def)
  have p1: "data_payloads [''data: {}'', ''data: nonsense'', ''data: {}''] = [''{}''] @ ''nonsense'' # [''{}'']"
    and p2: "data_payloads [''data: {}'', ''data: [1]'', ''data: {}''] = [''{}''] @ ''[1]'' # [''{}'']"
    by (simp_all add: data_payloads_def HasPrefix_def TrimPrefix_def)
  have k: "length [''{}''] + 1 = (2::nat)" by simp
  have u: "Unmarshal_into (example_lib r) Inr ''{}'' = Inr (JObject [])"
    "Unmarshal_into (example_lib r) Inr ''nonsense'' = Inl (LibErr ''invalid character'')"
    "Unmarshal_into (example_lib r) Inr ''[1]'' = Inr (JArray [JNum 1])" for r
    by (simp_all add: Unmarshal_into_def example_lib_def example_parse_def token_bytes_def
        detail_bytes_def dq_def)
  have g1: "list_all2 (\<lambda>d c. d \<noteq> ''[DONE]'' \<and> Unmarshal_into (example_lib (Inr ?resp1)) Inr d = Inr c
                           \<and> (\<forall>s. fst ((\<lambda>n c. (None, Suc n)) s c) = None)) [''{}''] [JObject []]"
    by (simp add: u)
  have g2: "list_all2 (\<lambda>d c. d \<noteq> ''[DONE]'' \<and> Unmarshal_into (example_lib (Inr ?resp2)) Inr d = Inr c
                           \<and> (\<forall>s. fst ((\<lambda>n c. (if c = JArray [JNum 1] then Some (LibErr ''stop'')
                                                     else None, Suc n)) s c) = None))
               [''{}''] [JObject []]"
    by (simp add: u)
  have n: "''nonsense'' \<noteq> ''[DONE]''" "''[1]'' \<noteq> ''[DONE]''" by simp_all
  show ?thesis
    using C7_stream_stops_at_first_failure [OF ctx d1 st(1) l1 p1 k g1 n(1),
            of "NewClient []" zero_VLMRequest "[]" 0]
          C7_stream_stops_at_first_failure [OF ctx d2 st(2) l2 p2 k g2 n(2),
            of "NewClient []" zero_VLMRequest "[]" 0]
          u
    by simp
qed

subsection \<open>The shape of the calls\<close>

lemma doStream_net: "fst (snd (doStream lib rq callback net s)) = net @ [rq]"
  by (simp add: doStream_def client_Do_def split: prod.splits sum.splits option.splits)

lemma snd_reply_handling: "snd (reply_handling lib into rq net) = net @ [rq]"
  by (simp add: reply_handling_def client_Do_def split: sum.splits)

lemma Decode_map_detail:
  "Decode_map lib body = (case decoded_detail lib body of
                            Some m \<Rightarrow> Inr m
                          | None \<Rightarrow> Decode_map lib body)
   \<and> (decoded_detail lib body = None \<longrightarrow> (\<exists>e. Decode_map lib body = Inl e))"
proof (cases "json_Decode lib body")
  case (Inl e)
  then show ?thesis by (simp add: Decode_map_def decoded_detail_def)
next
  case (Inr v)
  then show ?thesis by (cases v) (simp_all add: Decode_map_def decoded_detail_def)
qed

lemma fst_reply_handling_non200:
  assumes "http_Do lib rq = Inr resp" and "StatusCode resp \<noteq> 200"
  shows "fst (reply_handling lib into rq net) =
     Inl (case decoded_detail lib (Body resp) of
            Some m \<Rightarrow> Errorf ''API error: %v'' [ArgMap m]
          | None \<Rightarrow> Errorf ''API error with status code: %d'' [ArgInt (StatusCode resp)])"
proof (cases "decoded_detail lib (Body resp)")
  case None
  then obtain e where "Decode_map lib (Body resp) = Inl e"
    using Decode_map_detail [of lib "Body resp"] by blast
  then show ?thesis
    using assms None by (simp add: reply_handling_def client_Do_def)
next
  case (Some m)
  then have "Decode_map lib (Body resp) = Inr m"
    using Decode_map_detail [of lib "Body resp"] by simp
  then show ?thesis
    using assms Some by (simp add: reply_handling_def client_Do_def)
qed

lemma ClassificationRequest_json_Inr: "\<exists>j. ClassificationRequest_json r = Inr j"
proof -
  have m: "ClassificationInput_MarshalJSON c =
      Inr (if ClassificationInput_Image c \<noteq> ''''
           then json_Marshal_map [(''image'', JString (ClassificationInput_Image c))]
           else JString (ClassificationInput_Text c))" for c
    by (simp add: ClassificationInput_MarshalJSON_def)
  have "\<exists>j. marshal_slice_with ClassificationInput_MarshalJSON (Classification_Input r) = Inr j"
  proof (cases "Classification_Input r")
    case None
    then show ?thesis by simp
  next
    case (Some xs)
    then show ?thesis
      using marshal_all_Inr [of ClassificationInput_MarshalJSON _ xs, OF m] by simp
  qed
  then show ?thesis
    by (auto simp: ClassificationRequest_json_def)
qed

lemma Classify_shape:
  assumes "ctx \<noteq> NilContext"
  shows "\<exists>rq. Classify lib into cl ctx req net = reply_handling lib into rq net"
proof -
  obtain j where j: "ClassificationRequest_json req = Inr j"
    using ClassificationRequest_json_Inr by blast
  show ?thesis
    using assms j
    by (simp add: Classify_def Let_def NewRequestWithContext_def reply_handling_def) blast
qed

lemma Rerank_shape:
  assumes "ctx \<noteq> NilContext"
  shows "\<exists>rq. Rerank lib into cl ctx req net = reply_handling lib into rq net"
proof -
  obtain j where j: "RerankRequest_MarshalJSON req = Inr j"
    by (simp add: RerankRequest_MarshalJSON_def Let_def)
  show ?thesis
    using assms j
    by (simp add: Rerank_def Let_def NewRequestWithContext_def reply_handling_def) blast
qed

lemma Segment_shape:
  assumes "ctx \<noteq> NilContext"
  shows "\<exists>rq. Segment lib into cl ctx req net = reply_handling lib into rq net"
proof -
  obtain j where j: "SegmenterRequest_json req = Inr j"
    by (simp add: SegmenterRequest_json_def)
  show ?thesis
    using assms j
    by (simp add: Segment_def Let_def NewRequestWithContext_def reply_handling_def) blast
qed

lemma VLM_shape:
  assumes "ctx \<noteq> NilContext"
  shows "\<exists>messages.
     VLM lib into cl ctx req net =
       reply_handling lib into
         \<lparr>Ctx = ctx, Method = ''POST'',
          URL = ''https://api-beta-vlm.jina.ai/v1/chat/completions'',
          Header = [(''Content-Type'', ''application/json''), (''Accept'', ''application/json'')]
                   @ (if APIKey (cfg cl) \<noteq> ''''
                      then [(''Authorization'', ''Bearer '' @ APIKey (cfg cl))] else []),
          ReqBody = JObject [(''model'', JString (if VLM_Model req = '''' then VLMModelDefault
                                                  else VLM_Model req)),
                             (''messages'', messages)]\<rparr> net"
proof -
  let ?r = "(if VLM_Model req = '''' then req\<lparr>VLM_Model := VLMModelDefault\<rparr> else req)\<lparr>VLM_Stream := False\<rparr>"
  obtain messages where j: "VLMRequest_json ?r =
     Inr (JObject ([(''model'', JString (VLM_Model ?r)), (''messages'', messages)]
                  @ omitempty_bool ''stream'' (VLM_Stream ?r)))"
    using VLMRequest_json_Inr [of ?r] by blast
  show ?thesis
    apply (rule exI [of _ messages])
    using assms j
    apply (simp add: VLM_def Let_def NewRequestWithContext_def Header_Set_def omitempty_bool_def
        reply_handling_def)
    done
qed

lemma VLM_nil_context:
  "snd (VLM lib into cl NilContext req net) = net"
  by (simp add: VLM_def Let_def NewRequestWithContext_def split: sum.splits)

lemma map_of_omitempty_string:
  "map_of (omitempty_string k' v) k = (if k = k' \<and> v \<noteq> '''' then Some (JString v) else None)"
  by (simp add: omitempty_string_def)

lemma map_of_omitempty_int:
  "map_of (omitempty_int k' v) k = (if k = k' \<and> v \<noteq> 0 then Some (JNum (of_int v)) else None)"
  by (simp add: omitempty_int_def)

lemma map_of_omitempty_bool:
  "map_of (omitempty_bool k' v) k = (if k = k' \<and> v then Some (JBool True) else None)"
  by (simp add: omitempty_bool_def)

lemma DeepSearchRequest_json_shape:
  assumes "DeepSearchRequest_json lib r = Inr j"
  shows "\<exists>messages rf. j =
     JObject ([(''model'', JString (DeepSearch_Model r)), (''messages'', messages)]
              @ omitempty_bool ''stream'' (DeepSearch_Stream r)
              @ omitempty_string ''reasoning_effort'' (DeepSearch_ReasoningEffort r)
              @ omitempty_int ''budget_tokens'' (DeepSearch_BudgetTokens r)
              @ omitempty_int ''max_attempts'' (DeepSearch_MaxAttempts r)
              @ omitempty_bool ''no_direct_answer'' (DeepSearch_NoDirectAnswer r)
              @ omitempty_int ''max_returned_urls'' (DeepSearch_MaxReturnedURLs r)
              @ rf
              @ (if go_len (DeepSearch_BoostHostnames r) = 0 then []
                 else [(''boost_hostnames'', marshal_slice JString (DeepSearch_BoostHostnames r))]))
     \<and> (rf = [] \<or> (\<exists>x. rf = [(''response_format'', x)]))"
proof -
  obtain messages where m: "marshal_slice_with VLMMessage_json (DeepSearch_Messages r) = Inr messages"
    using messages_json_Inr by blast
  show ?thesis
  proof (cases "DeepSearch_ResponseFormat r")
    case None
    have "j = JObject ([(''model'', JString (DeepSearch_Model r)), (''messages'', messages)]
              @ omitempty_bool ''stream'' (DeepSearch_Stream r)
              @ omitempty_string ''reasoning_effort'' (DeepSearch_ReasoningEffort r)
              @ omitempty_int ''budget_tokens'' (DeepSearch_BudgetTokens r)
              @ omitempty_int ''max_attempts'' (DeepSearch_MaxAttempts r)
              @ omitempty_bool ''no_direct_answer'' (DeepSearch_NoDirectAnswer r)
              @ omitempty_int ''max_returned_urls'' (DeepSearch_MaxReturnedURLs r)
              @ []
              @ (if go_len (DeepSearch_BoostHostnames r) = 0 then []
                 else [(''boost_hostnames'', marshal_slice JString (DeepSearch_BoostHostnames r))]))"
      using assms by (simp only: DeepSearchRequest_json_def m None sum.case option.case sum.inject)
    then show ?thesis by blast
  next
    case (Some f)
    show ?thesis
    proof (cases "DeepSearchResponseFormat_json lib f")
      case (Inl e)
      with assms show ?thesis
        by (simp only: DeepSearchRequest_json_def m Some sum.case option.case sum.distinct)
    next
      case (Inr x)
      have "j = JObject ([(''model'', JString (DeepSearch_Model r)), (''messages'', messages)]
              @ omitempty_bool ''stream'' (DeepSearch_Stream r)
              @ omitempty_string ''reasoning_effort'' (DeepSearch_ReasoningEffort r)
              @ omitempty_int ''budget_tokens'' (DeepSearch_BudgetTokens r)
              @ omitempty_int ''max_attempts'' (DeepSearch_MaxAttempts r)
              @ omitempty_bool ''no_direct_answer'' (DeepSearch_NoDirectAnswer r)
              @ omitempty_int ''max_returned_urls'' (DeepSearch_MaxReturnedURLs r)
              @ [(''response_format'', x)]
              @ (if go_len (DeepSearch_BoostHostnames r) = 0 then []
                 else [(''boost_hostnames'', marshal_slice JString (DeepSearch_BoostHostnames r))]))"
        using assms by (simp only: DeepSearchRequest_json_def m Some Inr sum.case option.case sum.inject)
      then show ?thesis by blast
    qed
  qed
qed

lemma map_of_append_at:
  "map_of (xs @ ys) k = (case map_of xs k of Some v \<Rightarrow> Some v | None \<Rightarrow> map_of ys k)"
  by (induction xs) auto

lemma DeepSearchRequest_json_stream:
  assumes "DeepSearchRequest_json lib r = Inr j"
  shows "jfield ''stream'' j = (if DeepSearch_Stream r then Some (JBool True) else None)"
proof -
  obtain messages rf where j: "j =
     JObject ([(''model'', JString (DeepSearch_Model r)), (''messages'', messages)]
              @ omitempty_bool ''stream'' (DeepSearch_Stream r)
              @ omitempty_string ''reasoning_effort'' (DeepSearch_ReasoningEffort r)
              @ omitempty_int ''budget_tokens'' (DeepSearch_BudgetTokens r)
              @ omitempty_int ''max_attempts'' (DeepSearch_MaxAttempts r)
              @ omitempty_bool ''no_direct_answer'' (DeepSearch_NoDirectAnswer r)
              @ omitempty_int ''max_returned_urls'' (DeepSearch_MaxReturnedURLs r)
              @ rf
              @ (if go_len (DeepSearch_BoostHostnames r) = 0 then []
                 else [(''boost_hostnames'', marshal_slice JString (DeepSearch_BoostHostnames r))]))"
    and rf: "rf = [] \<or> (\<exists>x. rf = [(''response_format'', x)])"
    using DeepSearchRequest_json_shape [OF assms] by blast
  have a: "map_of rf ''stream'' = None"
    using rf by auto
  have b: "map_of (if go_len (DeepSearch_BoostHostnames r) = 0 then []
                 else [(''boost_hostnames'', marshal_slice JString (DeepSearch_BoostHostnames r))])
             ''stream'' = None"
    by simp
  have c: "map_of [(''model'', JString (DeepSearch_Model r)), (''messages'', messages)] ''stream'' = None"
    by simp
  have s: "map_of (omitempty_string ''reasoning_effort'' v) ''stream'' = None" for v
    by (simp add: map_of_omitempty_string)
  have i: "map_of (omitempty_int ''budget_tokens'' n) ''stream'' = None"
    "map_of (omitempty_int ''max_attempts'' n) ''stream'' = None"
    "map_of (omitempty_int ''max_returned_urls'' n) ''stream'' = None" for n
    by (simp_all add: map_of_omitempty_int)
  have n: "map_of (omitempty_bool ''no_direct_answer'' v) ''stream'' = None" for v
    by (simp add: map_of_omitempty_bool)
  have t: "map_of (omitempty_bool ''stream'' v) ''stream'' = (if v then Some (JBool True) else None)" for v
    by (simp add: map_of_omitempty_bool)
  have "jfield ''stream'' j = (case map_of (omitempty_bool ''stream'' (DeepSearch_Stream r)) ''stream'' of
          Some v \<Rightarrow> Some v | None \<Rightarrow> None)"
    unfolding j jfield.simps
    by (simp only: map_of_append_at a b c s i n option.case)
  then show ?thesis
    by (simp add: t)
qed

lemma DeepSearch_sent:
  "snd (DeepSearch lib into cl ctx req net) = net \<or>
   (\<exists>rq. DeepSearch lib into cl ctx req net = reply_handling lib into rq net
         \<and> jfield ''stream'' (ReqBody rq) = None)"
proof (cases "DeepSearchRequest_json lib
    ((if DeepSearch_Model req = '''' then req\<lparr>DeepSearch_Model := DeepSearchModelDefault\<rparr> else req)
       \<lparr>DeepSearch_Stream := False\<rparr>)")
  case (Inl e)
  then show ?thesis by (simp add: DeepSearch_def Let_def)
next
  case (Inr j)
  then have s: "jfield ''stream'' j = None"
    using DeepSearchRequest_json_stream [OF Inr] by simp
  show ?thesis
  proof (cases "ctx = NilContext")
    case True
    then show ?thesis using Inr by (simp add: DeepSearch_def Let_def NewRequestWithContext_def)
  next
    case False
    have "DeepSearch lib into cl ctx req net = reply_handling lib into
         \<lparr>Ctx = ctx, Method = ''POST'',
          URL = ''https://deepsearch.jina.ai/v1/chat/completions'',
          Header = [(''Content-Type'', ''application/json''), (''Accept'', ''application/json'')]
                   @ (if APIKey (cfg cl) \<noteq> ''''
                      then [(''Authorization'', ''Bearer '' @ APIKey (cfg cl))] else []),
          ReqBody = j\<rparr> net"
      using False Inr
      by (simp add: DeepSearch_def Let_def NewRequestWithContext_def Header_Set_def reply_handling_def)
    then show ?thesis using s by auto
  qed
qed

lemma DeepSearchStream_sent:
  "fst (snd (DeepSearchStream lib into cl ctx req callback net s)) = net \<or>
   (\<exists>rq. fst (snd (DeepSearchStream lib into cl ctx req callback net s)) = net @ [rq]
         \<and> jfield ''stream'' (ReqBody rq) = Some (JBool True))"
proof (cases "DeepSearchRequest_json lib
    ((if DeepSearch_Model req = '''' then req\<lparr>DeepSearch_Model := DeepSearchModelDefault\<rparr> else req)
       \<lparr>DeepSearch_Stream := True\<rparr>)")
  case (Inl e)
  then show ?thesis by (simp add: DeepSearchStream_def Let_def)
next
  case (Inr j)
  then have s: "jfield ''stream'' j = Some (JBool True)"
    using DeepSearchRequest_json_stream [OF Inr] by simp
  show ?thesis
  proof (cases "ctx = NilContext")
    case True
    then show ?thesis using Inr by (simp add: DeepSearchStream_def Let_def NewRequestWithContext_def)
  next
    case False
    have "fst (snd (DeepSearchStream lib into cl ctx req callback net s)) = net @
         [\<lparr>Ctx = ctx, Method = ''POST'',
          URL = ''https://deepsearch.jina.ai/v1/chat/completions'',
          Header = [(''Content-Type'', ''application/json''), (''Accept'', ''text/event-stream'')]
                   @ (if APIKey (cfg cl) \<noteq> ''''
                      then [(''Authorization'', ''Bearer '' @ APIKey (cfg cl))] else []),
          ReqBody = j\<rparr>]"
      using False Inr
      by (simp add: DeepSearchStream_def Let_def NewRequestWithContext_def Header_Set_def doStream_net)
    then show ?thesis using s by auto
  qed
qed

lemma VLM_sent:
  "snd (VLM lib into cl ctx req net) = net \<or>
   (\<exists>rq. snd (VLM lib into cl ctx req net) = net @ [rq] \<and> jfield ''stream'' (ReqBody rq) = None)"
proof (cases "ctx = NilContext")
  case True
  then show ?thesis by (simp add: VLM_nil_context)
next
  case False
  then obtain messages where "VLM lib into cl ctx req net =
       reply_handling lib into
         \<lparr>Ctx = ctx, Method = ''POST'',
          URL = ''https://api-beta-vlm.jina.ai/v1/chat/completions'',
          Header = [(''Content-Type'', ''application/json''), (''Accept'', ''application/json'')]
                   @ (if APIKey (cfg cl) \<noteq> ''''
                      then [(''Authorization'', ''Bearer '' @ APIKey (cfg cl))] else []),
          ReqBody = JObject [(''model'', JString (if VLM_Model req = '''' then VLMModelDefault
                                                  else VLM_Model req)),
                             (''messages'', messages)]\<rparr> net"
    using VLM_shape [of ctx lib into cl req net] by blast
  then show ?thesis
    by (simp add: snd_reply_handling)
qed

lemma VLMStream_sent:
  "fst (snd (VLMStream lib into cl ctx req callback net s)) = net \<or>
   (\<exists>rq. fst (snd (VLMStream lib into cl ctx req callback net s)) = net @ [rq]
         \<and> jfield ''stream'' (ReqBody rq) = Some (JBool True))"
proof (cases "ctx = NilContext")
  case True
  then show ?thesis
    by (simp add: VLMStream_def Let_def NewRequestWithContext_def split: sum.splits)
next
  case False
  then obtain messages where "VLMStream lib into cl ctx req callback net s =
           doStream lib
             \<lparr>Ctx = ctx, Method = ''POST'',
              URL = ''https://api-beta-vlm.jina.ai/v1/chat/completions'',
              Header = [(''Content-Type'', ''application/json''), (''Accept'', ''text/event-stream'')]
                       @ (if APIKey (cfg cl) \<noteq> ''''
                          then [(''Authorization'', ''Bearer '' @ APIKey (cfg cl))] else []),
              ReqBody = JObject [(''model'', JString (if VLM_Model req = '''' then VLMModelDefault
                                                      else VLM_Model req)),
                                 (''messages'', messages), (''stream'', JBool True)]\<rparr>
             (\<lambda>s data. case Unmarshal_into lib into data of
                          Inl err \<Rightarrow> (Some (Wrapf ''failed to unmarshal chunk: %w'' err), s)
                        | Inr chunk \<Rightarrow> callback s chunk)
             net s"
    using VLMStream_sends [of ctx lib into cl req callback net s] by blast
  then show ?thesis
    by (simp add: doStream_net)
qed

lemma VLM_sends_one:
  assumes "ctx \<noteq> NilContext"
  shows "length (snd (VLM lib into cl ctx req net)) = Suc (length net)"
proof -
  obtain rq where "VLM lib into cl ctx req net = reply_handling lib into rq net"
    using VLM_shape [OF assms, of lib into cl req net] by blast
  then show ?thesis by (simp add: snd_reply_handling)
qed

lemma VLMStream_sends_one:
  assumes "ctx \<noteq> NilContext"
  shows "length (fst (snd (VLMStream lib into cl ctx req callback net s))) = Suc (length net)"
proof -
  obtain rq cb where "VLMStream lib into cl ctx req callback net s = doStream lib rq cb net s"
    using VLMStream_sends [OF assms, of lib into cl req callback net s] by blast
  then show ?thesis by (simp add: doStream_net)
qed

lemma DeepSearchRequest_json_Inr:
  assumes "DeepSearch_ResponseFormat r = None"
  shows "\<exists>j. DeepSearchRequest_json lib r = Inr j"
proof -
  obtain messages where m: "marshal_slice_with VLMMessage_json (DeepSearch_Messages r) = Inr messages"
    using messages_json_Inr by blast
  show ?thesis
    by (simp only: DeepSearchRequest_json_def m assms sum.case option.case) blast
qed

lemma DeepSearch_shape:
  assumes "ctx \<noteq> NilContext" and "DeepSearch_ResponseFormat req = None"
  shows "\<exists>rq. DeepSearch lib into cl ctx req net = reply_handling lib into rq net"
proof -
  let ?r = "(if DeepSearch_Model req = '''' then req\<lparr>DeepSearch_Model := DeepSearchModelDefault\<rparr>
             else req)\<lparr>DeepSearch_Stream := False\<rparr>"
  have "DeepSearch_ResponseFormat ?r = None"
    using assms(2) by simp
  then obtain j where j: "DeepSearchRequest_json lib ?r = Inr j"
    using DeepSearchRequest_json_Inr by blast
  have "snd (DeepSearch lib into cl ctx req net) \<noteq> net"
    using assms(1) j
    by (simp add: DeepSearch_def Let_def NewRequestWithContext_def client_Do_def split: sum.splits)
  then show ?thesis
    using DeepSearch_sent [of lib into cl ctx req net] by blast
qed

lemma DeepSearch_sends_one:
  assumes "ctx \<noteq> NilContext" and "DeepSearch_ResponseFormat req = None"
  shows "length (snd (DeepSearch lib into cl ctx req net)) = Suc (length net)"
proof -
  obtain rq where "DeepSearch lib into cl ctx req net = reply_handling lib into rq net"
    using DeepSearch_shape [OF assms, of lib into cl net] by blast
  then show ?thesis by (simp add: snd_reply_handling)
qed

lemma DeepSearchStream_sends_one:
  assumes "ctx \<noteq> NilContext" and "DeepSearch_ResponseFormat req = None"
  shows "length (fst (snd (DeepSearchStream lib into cl ctx req callback net s))) = Suc (length net)"
proof -
  let ?r = "(if DeepSearch_Model req = '''' then req\<lparr>DeepSearch_Model := DeepSearchModelDefault\<rparr>
             else req)\<lparr>DeepSearch_Stream := True\<rparr>"
  have "DeepSearch_ResponseFormat ?r = None"
    using assms(2) by simp
  then obtain j where j: "DeepSearchRequest_json lib ?r = Inr j"
    using DeepSearchRequest_json_Inr by blast
  show ?thesis
    using assms(1) j
    by (simp add: DeepSearchStream_def Let_def NewRequestWithContext_def doStream_net)
qed

subsection \<open>The stream field of the chat requests\<close>

text \<open>
  C10 (as the code has it). Whatever \<^verbatim>\<open>Stream\<close> the caller sets, every request that
  \<^verbatim>\<open>VLM\<close> or \<^verbatim>\<open>DeepSearch\<close> puts on the network has a body with no \<^verbatim>\<open>stream\<close>
  member at all (the field is set to false before marshaling and is tagged
  \<^verbatim>\<open>omitempty\<close>), and every request that \<^verbatim>\<open>VLMStream\<close> or \<^verbatim>\<open>DeepSearchStream\<close>
  puts on the network has a body whose \<^verbatim>\<open>stream\<close> member is true. With a live context
  \<^verbatim>\<open>VLM\<close> and \<^verbatim>\<open>VLMStream\<close> send exactly one request, and so do \<^verbatim>\<open>DeepSearch\<close>
  and \<^verbatim>\<open>DeepSearchStream\<close> when no response format has to be marshaled.
\<close>

theorem C10_stream_field_forced:
  "(\<forall>rq\<in>set (snd (VLM lib into cl ctx vreq [])). jfield ''stream'' (ReqBody rq) = None)
   \<and> (\<forall>rq\<in>set (snd (DeepSearch lib into cl ctx dreq [])). jfield ''stream'' (ReqBody rq) = None)
   \<and> (\<forall>rq\<in>set (fst (snd (VLMStream lib into cl ctx vreq vcallback [] s))).
         jfield ''stream'' (ReqBody rq) = Some (JBool True))
   \<and> (\<forall>rq\<in>set (fst (snd (DeepSearchStream lib into cl ctx dreq dcallback [] s))).
         jfield ''stream'' (ReqBody rq) = Some (JBool True))
   \<and> (ctx \<noteq> NilContext \<longrightarrow>
         length (snd (VLM lib into cl ctx vreq [])) = 1
         \<and> length (fst (snd (VLMStream lib into cl ctx vreq vcallback [] s))) = 1)
   \<and> (ctx \<noteq> NilContext \<and> DeepSearch_ResponseFormat dreq = None \<longrightarrow>
         length (snd (DeepSearch lib into cl ctx dreq [])) = 1
         \<and> length (fst (snd (DeepSearchStream lib into cl ctx dreq dcallback [] s))) = 1)"
proof -
  have "\<forall>rq\<in>set (snd (VLM lib into cl ctx vreq [])). jfield ''stream'' (ReqBody rq) = None"
    using VLM_sent [of lib into cl ctx vreq "[]"] by auto
  moreover have "\<forall>rq\<in>set (snd (DeepSearch lib into cl ctx dreq [])). jfield ''stream'' (ReqBody rq) = None"
    using DeepSearch_sent [of lib into cl ctx dreq "[]"] by (auto simp: snd_reply_handling)
  moreover have "\<forall>rq\<in>set (fst (snd (VLMStream lib into cl ctx vreq vcallback [] s))).
         jfield ''stream'' (ReqBody rq) = Some (JBool True)"
    using VLMStream_sent [of lib into cl ctx vreq vcallback "[]" s] by auto
  moreover have "\<forall>rq\<in>set (fst (snd (DeepSearchStream lib into cl ctx dreq dcallback [] s))).
         jfield ''stream'' (ReqBody rq) = Some (JBool True)"
    using DeepSearchStream_sent [of lib into cl ctx dreq dcallback "[]" s] by auto
  moreover have "ctx \<noteq> NilContext \<longrightarrow>
         length (snd (VLM lib into cl ctx vreq [])) = 1
         \<and> length (fst (snd (VLMStream lib into cl ctx vreq vcallback [] s))) = 1"
    using VLM_sends_one [of ctx lib into cl vreq "[]"]
      VLMStream_sends_one [of ctx lib into cl vreq vcallback "[]" s] by simp
  moreover have "ctx \<noteq> NilContext \<and> DeepSearch_ResponseFormat dreq = None \<longrightarrow>
         length (snd (DeepSearch lib into cl ctx dreq [])) = 1
         \<and> length (fst (snd (DeepSearchStream lib into cl ctx dreq dcallback [] s))) = 1"
    using DeepSearch_sends_one [of ctx dreq lib into cl "[]"]
      DeepSearchStream_sends_one [of ctx dreq lib into cl dcallback "[]" s] by simp
  ultimately show ?thesis by blast
qed

theorem C10_stream_field_forced_witness:
  "map (\<lambda>rq. jfield ''stream'' (ReqBody rq))
       (snd (VLM (example_lib (Inr \<lparr>StatusCode = 200, Body = ''{}''\<rparr>)) Inr (NewClient [])
               (LiveContext ''background'') (zero_VLMRequest\<lparr>VLM_Stream := True\<rparr>) []))
     = [None]
   \<and> map (\<lambda>rq. jfield ''stream'' (ReqBody rq))
       (snd (DeepSearch (example_lib (Inr \<lparr>StatusCode = 200, Body = ''{}''\<rparr>)) Inr (NewClient [])
               (LiveContext ''background'') (zero_DeepSearchRequest\<lparr>DeepSearch_Stream := True\<rparr>) []))
     = [None]
   \<and> map (\<lambda>rq. jfield ''stream'' (ReqBody rq))
       (fst (snd (VLMStream (example_lib (Inr \<lparr>StatusCode = 200, Body = ''{}''\<rparr>)) Inr
               (NewClient []) (LiveContext ''background'') (zero_VLMRequest\<lparr>VLM_Stream := True\<rparr>)
               (\<lambda>n c. (None, Suc n)) [] (0::nat))))
     = [Some (JBool True)]
   \<and> map (\<lambda>rq. jfield ''stream'' (ReqBody rq))
       (fst (snd (DeepSearchStream (example_lib (Inr \<lparr>StatusCode = 200, Body = ''{}''\<rparr>)) Inr
               (NewClient []) (LiveContext ''background'')
               (zero_DeepSearchRequest\<lparr>DeepSearch_Stream := True\<rparr>)
               (\<lambda>n c. (None, Suc n)) [] (0::nat))))
     = [Some (JBool True)]"
proof -
  have c: "LiveContext ''background'' \<noteq> NilContext" by simp
  have z: "DeepSearch_ResponseFormat (zero_DeepSearchRequest\<lparr>DeepSearch_Stream := True\<rparr>) = None"
    by (simp add: zero_DeepSearchRequest_def)
  have one: "length xs = 1 \<Longrightarrow> \<forall>x\<in>set xs. f x = v \<Longrightarrow> map f xs = [v]"
    for xs :: "'a list" and f :: "'a \<Rightarrow> 'b" and v
    by (cases xs) auto
  show ?thesis
    using C10_stream_field_forced [of "example_lib (Inr \<lparr>StatusCode = 200, Body = ''{}''\<rparr>)" Inr
            "NewClient []" "LiveContext ''background''" "zero_VLMRequest\<lparr>VLM_Stream := True\<rparr>"
            "zero_DeepSearchRequest\<lparr>DeepSearch_Stream := True\<rparr>"
            "\<lambda>n c. (None, Suc n)" "0::nat" "\<lambda>n c. (None, Suc n)"]
          c z
    by (simp add: one)
qed

text \<open>
  C10 as the specification states it fails: a synchronous \<^verbatim>\<open>VLM\<close> call made with
  \<^verbatim>\<open>Stream\<close> set sends a body that has the members \<^verbatim>\<open>model\<close> and \<^verbatim>\<open>messages\<close> only.
  The body does not carry \<^verbatim>\<open>stream\<close> as false, it does not carry \<^verbatim>\<open>stream\<close>.
\<close>

theorem C10_sync_body_has_no_stream_counterexample:
  "map ReqBody
       (snd (VLM (example_lib (Inr \<lparr>StatusCode = 200, Body = ''{}''\<rparr>)) Inr (NewClient [])
               (LiveContext ''background'') (zero_VLMRequest\<lparr>VLM_Stream := True\<rparr>) []))
     = [JObject [(''model'', JString ''jina-vlm''), (''messages'', JNull)]]
   \<and> jfield ''stream'' (JObject [(''model'', JString ''jina-vlm''), (''messages'', JNull)])
       \<noteq> Some (JBool False)"
  by (simp add: VLM_def Let_def zero_VLMRequest_def VLMModelDefault_def VLMRequest_json_def
      omitempty_bool_def NewRequestWithContext_def Header_Set_def NewClient_def defaultConfig_def
      client_Do_def example_lib_def Decode_into_def example_parse_def token_bytes_def
      detail_bytes_def dq_def)

subsection \<open>Replies with a status other than 200\<close>

lemma Reader_non200:
  assumes "Reader_URL req \<noteq> ''''" and "ctx \<noteq> NilContext"
    and "\<forall>rq. http_Do lib rq = Inr resp" and "StatusCode resp \<noteq> 200"
  shows "fst (Reader lib into cl ctx req net) =
     Inl (Errorf ''API error: status %d, body: %s''
            [ArgInt (StatusCode resp), ArgString (fst (io_ReadAll lib (Body resp)))])"
  using assms
  by (simp add: Reader_def Let_def ReaderRequest_json_def NewRequestWithContext_def client_Do_def
      split: prod.splits)

lemma Search_non200:
  assumes "Search_Query req \<noteq> ''''" and "ctx \<noteq> NilContext"
    and "\<forall>rq. http_Do lib rq = Inr resp" and "StatusCode resp \<noteq> 200"
  shows "fst (Search lib into cl ctx req net) =
     Inl (Errorf ''API error: status %d, body: %s''
            [ArgInt (StatusCode resp), ArgString (fst (io_ReadAll lib (Body resp)))])"
  using assms
  by (simp add: Search_def Let_def SearchRequest_json_def NewRequestWithContext_def client_Do_def
      split: prod.splits)

text \<open>
  C4 (as the code has it). For a reply with a status other than 200: \<^verbatim>\<open>Classify\<close>,
  \<^verbatim>\<open>Rerank\<close>, \<^verbatim>\<open>Segment\<close>, \<^verbatim>\<open>VLM\<close> and \<^verbatim>\<open>DeepSearch\<close> fail with an error that
  holds the decoded mapping when the body decodes to one (a JSON object, or
  \<^verbatim>\<open>null\<close>), and the status code alone when it does not (a body that does not parse,
  or a JSON value of another kind); \<^verbatim>\<open>Reader\<close> and \<^verbatim>\<open>Search\<close> fail with an error
  that holds both the status code and the body as text, never decoding it.
\<close>

theorem C4_error_for_non200:
  assumes "ctx \<noteq> NilContext"
    and "\<forall>rq. http_Do lib rq = Inr resp" and "StatusCode resp \<noteq> 200"
  shows "(\<forall>e. e = (case decoded_detail lib (Body resp) of
                     Some m \<Rightarrow> Errorf ''API error: %v'' [ArgMap m]
                   | None \<Rightarrow> Errorf ''API error with status code: %d'' [ArgInt (StatusCode resp)]) \<longrightarrow>
            fst (Classify lib into1 cl ctx creq net) = Inl e
            \<and> fst (Rerank lib into2 cl ctx rreq net) = Inl e
            \<and> fst (Segment lib into3 cl ctx sreq net) = Inl e
            \<and> fst (VLM lib into4 cl ctx vreq net) = Inl e
            \<and> (DeepSearch_ResponseFormat dreq = None \<longrightarrow>
                 fst (DeepSearch lib into5 cl ctx dreq net) = Inl e))
       \<and> (Reader_URL readreq \<noteq> '''' \<longrightarrow>
            fst (Reader lib into6 cl ctx readreq net) =
              Inl (Errorf ''API error: status %d, body: %s''
                     [ArgInt (StatusCode resp), ArgString (fst (io_ReadAll lib (Body resp)))]))
       \<and> (Search_Query searchreq \<noteq> '''' \<longrightarrow>
            fst (Search lib into7 cl ctx searchreq net) =
              Inl (Errorf ''API error: status %d, body: %s''
                     [ArgInt (StatusCode resp), ArgString (fst (io_ReadAll lib (Body resp)))]))"
proof -
  have h: "fst (reply_handling lib into rq net) =
     Inl (case decoded_detail lib (Body resp) of
            Some m \<Rightarrow> Errorf ''API error: %v'' [ArgMap m]
          | None \<Rightarrow> Errorf ''API error with status code: %d'' [ArgInt (StatusCode resp)])" for into rq
    using fst_reply_handling_non200 [of lib rq resp into net] assms(2,3) by simp
  have "fst (Classify lib into1 cl ctx creq net) =
     Inl (case decoded_detail lib (Body resp) of
            Some m \<Rightarrow> Errorf ''API error: %v'' [ArgMap m]
          | None \<Rightarrow> Errorf ''API error with status code: %d'' [ArgInt (StatusCode resp)])"
    using Classify_shape [OF assms(1), of lib into1 cl creq net] h by auto
  moreover have "fst (Rerank lib into2 cl ctx rreq net) =
     Inl (case decoded_detail lib (Body resp) of
            Some m \<Rightarrow> Errorf ''API error: %v'' [ArgMap m]
          | None \<Rightarrow> Errorf ''API error with status code: %d'' [ArgInt (StatusCode resp)])"
    using Rerank_shape [OF assms(1), of lib into2 cl rreq net] h by auto
  moreover have "fst (Segment lib into3 cl ctx sreq net) =
     Inl (case decoded_detail lib (Body resp) of
            Some m \<Rightarrow> Errorf ''API error: %v'' [ArgMap m]
          | None \<Rightarrow> Errorf ''API error with status code: %d'' [ArgInt (StatusCode resp)])"
    using Segment_shape [OF assms(1), of lib into3 cl sreq net] h by auto
  moreover have "fst (VLM lib into4 cl ctx vreq net) =
     Inl (case decoded_detail lib (Body resp) of
            Some m \<Rightarrow> Errorf ''API error: %v'' [ArgMap m]
          | None \<Rightarrow> Errorf ''API error with status code: %d'' [ArgInt (StatusCode resp)])"
    using VLM_shape [OF assms(1), of lib into4 cl vreq net] h by auto
  moreover have "fst (DeepSearch lib into5 cl ctx dreq net) =
     Inl (case decoded_detail lib (Body resp) of
            Some m \<Rightarrow> Errorf ''API error: %v'' [ArgMap m]
          | None \<Rightarrow> Errorf ''API error with status code: %d'' [ArgInt (StatusCode resp)])"
    if "DeepSearch_ResponseFormat dreq = None"
    using DeepSearch_shape [OF assms(1) that, of lib into5 cl net] h by auto
  ultimately show ?thesis
    using Reader_non200 [OF _ assms, of readreq into6 cl net]
      Search_non200 [OF _ assms, of searchreq into7 cl net]
    by simp
qed

theorem C4_error_for_non200_witness:
  "fst (Classify (example_lib (Inr \<lparr>StatusCode = 400, Body = detail_bytes\<rparr>)) Inr (NewClient [])
          (LiveContext ''background'') zero_ClassificationRequest [])
     = Inl (Errorf ''API error: %v'' [ArgMap [(''detail'', JString ''bad model'')]])
   \<and> fst (Classify (example_lib (Inr \<lparr>StatusCode = 500, Body = ''nonsense''\<rparr>)) Inr (NewClient [])
          (LiveContext ''background'') zero_ClassificationRequest [])
     = Inl (Errorf ''API error with status code: %d'' [ArgInt 500])
   \<and> fst (Classify (example_lib (Inr \<lparr>StatusCode = 500, Body = ''[1]''\<rparr>)) Inr (NewClient [])
          (LiveContext ''background'') zero_ClassificationRequest [])
     = Inl (Errorf ''API error with status code: %d'' [ArgInt 500])
   \<and> fst (Reader (example_lib (Inr \<lparr>StatusCode = 400, Body = detail_bytes\<rparr>)) Inr (NewClient [])
          (LiveContext ''background'') (zero_ReaderRequest\<lparr>Reader_URL := ''https://example.com''\<rparr>) [])
     = Inl (Errorf ''API error: status %d, body: %s'' [ArgInt 400, ArgString detail_bytes])
   \<and> fst (Search (example_lib (Inr \<lparr>StatusCode = 500, Body = ''nonsense''\<rparr>)) Inr (NewClient [])
          (LiveContext ''background'') (zero_SearchRequest\<lparr>Search_Query := ''jina''\<rparr>) [])
     = Inl (Errorf ''API error: status %d, body: %s'' [ArgInt 500, ArgString ''nonsense''])
   \<and> fst (DeepSearch (example_lib (Inr \<lparr>StatusCode = 400, Body = detail_bytes\<rparr>)) Inr (NewClient [])
          (LiveContext ''background'') zero_DeepSearchRequest [])
     = Inl (Errorf ''API error: %v'' [ArgMap [(''detail'', JString ''bad model'')]])"
proof -
  have c: "LiveContext ''background'' \<noteq> NilContext" by simp
  have d: "\<forall>rq. http_Do (example_lib (Inr resp)) rq = Inr resp" for resp :: "string http_response"
    by (simp add: example_lib_def)
  have s: "StatusCode \<lparr>StatusCode = 400, Body = detail_bytes\<rparr> \<noteq> 200"
    "StatusCode \<lparr>StatusCode = 500, Body = ''nonsense''\<rparr> \<noteq> 200"
    "StatusCode \<lparr>StatusCode = 500, Body = ''[1]''\<rparr> \<noteq> 200"
    by simp_all
  have p: "decoded_detail (example_lib r) detail_bytes = Some [(''detail'', JString ''bad model'')]"
    "decoded_detail (example_lib r) ''nonsense'' = None"
    "decoded_detail (example_lib r) ''[1]'' = None" for r
    by (simp_all add: decoded_detail_def example_lib_def example_parse_def token_bytes_def
        detail_bytes_def dq_def)
  have q: "io_ReadAll (example_lib r) b = (b, None)" for r b
    by (simp add: example_lib_def)
  have u: "Reader_URL (zero_ReaderRequest\<lparr>Reader_URL := ''https://example.com''\<rparr>) \<noteq> ''''"
    "Search_Query (zero_SearchRequest\<lparr>Search_Query := ''jina''\<rparr>) \<noteq> ''''"
    by simp_all
  have z: "DeepSearch_ResponseFormat zero_DeepSearchRequest = None"
    by (simp add: zero_DeepSearchRequest_def)
  have t400: "fst (Classify (example_lib (Inr \<lparr>StatusCode = 400, Body = detail_bytes\<rparr>)) Inr (NewClient [])
          (LiveContext ''background'') zero_ClassificationRequest [])
     = Inl (Errorf ''API error: %v'' [ArgMap [(''detail'', JString ''bad model'')]])
   \<and> fst (Reader (example_lib (Inr \<lparr>StatusCode = 400, Body = detail_bytes\<rparr>)) Inr (NewClient [])
          (LiveContext ''background'') (zero_ReaderRequest\<lparr>Reader_URL := ''https://example.com''\<rparr>) [])
     = Inl (Errorf ''API error: status %d, body: %s'' [ArgInt 400, ArgString detail_bytes])
   \<and> fst (DeepSearch (example_lib (Inr \<lparr>StatusCode = 400, Body = detail_bytes\<rparr>)) Inr (NewClient [])
          (LiveContext ''background'') zero_DeepSearchRequest [])
     = Inl (Errorf ''API error: %v'' [ArgMap [(''detail'', JString ''bad model'')]])"
    using z C4_error_for_non200 [OF c d s(1),
            where ?into1.0 = Inr and cl = "NewClient []" and creq = zero_ClassificationRequest
              and net = "[]" and ?into2.0 = Inr and ?into3.0 = Inr and ?into4.0 = Inr
              and ?into5.0 = Inr and ?into6.0 = Inr and ?into7.0 = Inr
              and vreq = zero_VLMRequest and dreq = zero_DeepSearchRequest
              and readreq = "zero_ReaderRequest\<lparr>Reader_URL := ''https://example.com''\<rparr>"
              and searchreq = "zero_SearchRequest\<lparr>Search_Query := ''jina''\<rparr>"]
          u
    by (simp add: p q)
  have t500: "fst (Classify (example_lib (Inr \<lparr>StatusCode = 500, Body = ''nonsense''\<rparr>)) Inr (NewClient [])
          (LiveContext ''background'') zero_ClassificationRequest [])
     = Inl (Errorf ''API error with status code: %d'' [ArgInt 500])
   \<and> fst (Search (example_lib (Inr \<lparr>StatusCode = 500, Body = ''nonsense''\<rparr>)) Inr (NewClient [])
          (LiveContext ''background'') (zero_SearchRequest\<lparr>Search_Query := ''jina''\<rparr>) [])
     = Inl (Errorf ''API error: status %d, body: %s'' [ArgInt 500, ArgString ''nonsense''])"
    using C4_error_for_non200 [OF c d s(2),
            where ?into1.0 = Inr and cl = "NewClient []" and creq = zero_ClassificationRequest
              and net = "[]" and ?into2.0 = Inr and ?into3.0 = Inr and ?into4.0 = Inr
              and ?into5.0 = Inr and ?into6.0 = Inr and ?into7.0 = Inr
              and vreq = zero_VLMRequest and dreq = zero_DeepSearchRequest
              and readreq = "zero_ReaderRequest\<lparr>Reader_URL := ''https://example.com''\<rparr>"
              and searchreq = "zero_SearchRequest\<lparr>Search_Query := ''jina''\<rparr>"]
          u
    by (simp add: p q)
  have t501: "fst (Classify (example_lib (Inr \<lparr>StatusCode = 500, Body = ''[1]''\<rparr>)) Inr (NewClient [])
          (LiveContext ''background'') zero_ClassificationRequest [])
     = Inl (Errorf ''API error with status code: %d'' [ArgInt 500])"
    using C4_error_for_non200 [OF c d s(3),
            where ?into1.0 = Inr and cl = "NewClient []" and creq = zero_ClassificationRequest
              and net = "[]" and ?into2.0 = Inr and ?into3.0 = Inr and ?into4.0 = Inr
              and ?into5.0 = Inr and ?into6.0 = Inr and ?into7.0 = Inr
              and vreq = zero_VLMRequest and dreq = zero_DeepSearchRequest
              and readreq = "zero_ReaderRequest\<lparr>Reader_URL := ''https://example.com''\<rparr>"
              and searchreq = "zero_SearchRequest\<lparr>Search_Query := ''jina''\<rparr>"]
    by (simp add: p q)
  show ?thesis
    using t400 t500 t501 by simp
qed

text \<open>
  C4 as the specification states it fails on \<^verbatim>\<open>Reader\<close> (and \<^verbatim>\<open>Search\<close>): for a reply
  with status 500 and the body \<^verbatim>\<open>nonsense\<close>, which is not JSON, the error holds the
  body as well as the status code, not the status code alone.
\<close>

theorem C4_reader_error_embeds_body_counterexample:
  "fst (Reader (example_lib (Inr \<lparr>StatusCode = 500, Body = ''nonsense''\<rparr>)) Inr (NewClient [])
          (LiveContext ''background'') (zero_ReaderRequest\<lparr>Reader_URL := ''https://example.com''\<rparr>) [])
     = Inl (Errorf ''API error: status %d, body: %s'' [ArgInt 500, ArgString ''nonsense''])
   \<and> fst (Reader (example_lib (Inr \<lparr>StatusCode = 500, Body = ''nonsense''\<rparr>)) Inr (NewClient [])
          (LiveContext ''background'') (zero_ReaderRequest\<lparr>Reader_URL := ''https://example.com''\<rparr>) [])
     \<noteq> Inl (Errorf ''API error with status code: %d'' [ArgInt 500])
   \<and> decoded_detail (example_lib (Inr \<lparr>StatusCode = 500, Body = ''nonsense''\<rparr>)) ''nonsense'' = None"
  by (simp add: Reader_def Let_def zero_ReaderRequest_def ReaderRequest_json_def
      NewRequestWithContext_def client_Do_def example_lib_def decoded_detail_def example_parse_def
      token_bytes_def detail_bytes_def dq_def)

subsection \<open>The Authorization header\<close>

lemma Header_Values_Add:
  "Header_Values name (Header_Add k v rq) =
     Header_Values name rq @ (if k = name then [v] else [])"
  by (simp add: Header_Values_def Header_Add_def)

lemma add_headers_other:
  "\<forall>e\<in>set entries. fst (snd e) \<noteq> name \<Longrightarrow>
     Header_Values name (add_headers entries rq) = Header_Values name rq"
proof (induction entries arbitrary: rq)
  case Nil
  then show ?case by (simp add: add_headers_def)
next
  case (Cons e entries)
  obtain g k v where e: "e = (g, k, v)" by (cases e) auto
  have "add_headers (e # entries) rq = add_headers entries (if g then Header_Add k v rq else rq)"
    by (simp add: add_headers_def e)
  moreover have "Header_Values name (if g then Header_Add k v rq else rq) = Header_Values name rq"
    using Cons.prems e by (simp add: Header_Values_Add)
  ultimately show ?case
    using Cons.IH [of "if g then Header_Add k v rq else rq"] Cons.prems by simp
qed

lemma setReaderHeaders_Authorization:
  "Header_Values ''Authorization'' (setReaderHeaders cl rq req) =
     Header_Values ''Authorization'' rq @ [''Bearer '' @ APIKey (cfg cl)]"
  unfolding setReaderHeaders_def Let_def
  by (subst add_headers_other) (simp_all add: Header_Values_Add)

lemma setSearchHeaders_Authorization:
  "Header_Values ''Authorization'' (setSearchHeaders cl rq args) =
     Header_Values ''Authorization'' rq @ [''Bearer '' @ APIKey (cfg cl)]"
  unfolding setSearchHeaders_def Let_def
  by (subst add_headers_other) (simp_all add: Header_Values_Add)

lemma Reader_sends:
  assumes "Reader_URL req \<noteq> ''''" and "ctx \<noteq> NilContext"
  shows "\<exists>rq req'. snd (Reader lib into cl ctx req net) = net @ [setReaderHeaders cl rq req']
                   \<and> Header rq = [(''Content-Type'', ''application/json'')]"
proof -
  let ?req' = "if EUCompliance (cfg cl) then req\<lparr>Reader_EUCompliance := True\<rparr> else req"
  obtain j where j: "ReaderRequest_json ?req' = Inr j"
    by (simp add: ReaderRequest_json_def)
  let ?rq = "\<lparr>Ctx = ctx, Method = ''POST'', URL = buildReaderURL cl ?req',
              Header = [(''Content-Type'', ''application/json'')], ReqBody = j\<rparr>"
  have "snd (Reader lib into cl ctx req net) = net @ [setReaderHeaders cl ?rq ?req']"
    using assms j
    by (simp add: Reader_def Let_def NewRequestWithContext_def client_Do_def Header_Set_def
        split: prod.splits sum.splits option.splits)
  then show ?thesis
    by (intro exI [of _ ?rq] exI [of _ ?req']) simp
qed

lemma Search_sends:
  assumes "Search_Query req \<noteq> ''''" and "ctx \<noteq> NilContext"
  shows "\<exists>rq req'. snd (Search lib into cl ctx req net) = net @ [setSearchHeaders cl rq req']
                   \<and> Header rq = [(''Content-Type'', ''application/json'')]"
proof -
  let ?req' = "if EUCompliance (cfg cl) then req\<lparr>Search_EUCompliance := True\<rparr> else req"
  obtain j where j: "SearchRequest_json ?req' = Inr j"
    by (simp add: SearchRequest_json_def)
  let ?rq = "\<lparr>Ctx = ctx, Method = ''POST'', URL = buildSearchURL cl ?req',
              Header = [(''Content-Type'', ''application/json'')], ReqBody = j\<rparr>"
  have "snd (Search lib into cl ctx req net) = net @ [setSearchHeaders cl ?rq ?req']"
    using assms j
    by (simp add: Search_def Let_def NewRequestWithContext_def client_Do_def Header_Set_def
        split: prod.splits sum.splits option.splits)
  then show ?thesis
    by (intro exI [of _ ?rq] exI [of _ ?req']) simp
qed

lemma Reader_Authorization:
  assumes "Reader_URL req \<noteq> ''''" and "ctx \<noteq> NilContext"
  shows "map (Header_Values ''Authorization'') (snd (Reader lib into cl ctx req []))
         = [ [''Bearer '' @ APIKey (cfg cl)] ]"
proof -
  obtain rq req' where "snd (Reader lib into cl ctx req []) = [] @ [setReaderHeaders cl rq req']"
    and "Header rq = [(''Content-Type'', ''application/json'')]"
    using Reader_sends [OF assms, of lib into cl "[]"] by blast
  then show ?thesis
    by (simp add: setReaderHeaders_Authorization) (simp add: Header_Values_def)
qed

lemma Search_Authorization:
  assumes "Search_Query req \<noteq> ''''" and "ctx \<noteq> NilContext"
  shows "map (Header_Values ''Authorization'') (snd (Search lib into cl ctx req []))
         = [ [''Bearer '' @ APIKey (cfg cl)] ]"
proof -
  obtain rq req' where "snd (Search lib into cl ctx req []) = [] @ [setSearchHeaders cl rq req']"
    and "Header rq = [(''Content-Type'', ''application/json'')]"
    using Search_sends [OF assms, of lib into cl "[]"] by blast
  then show ?thesis
    by (simp add: setSearchHeaders_Authorization) (simp add: Header_Values_def)
qed

text \<open>
  C3. With the empty API key of the default configuration, \<^verbatim>\<open>Reader\<close> and \<^verbatim>\<open>Search\<close>
  each send a request whose \<^verbatim>\<open>Authorization\<close> header is \<^verbatim>\<open>Bearer\<close> followed by a
  space and nothing else: \<^verbatim>\<open>setReaderHeaders\<close> and \<^verbatim>\<open>setSearchHeaders\<close> add the
  header without looking at the key. \<^verbatim>\<open>Classify\<close>, which tests the key as the other
  calls do, sends no such header with the same client.
\<close>

theorem C3_reader_search_send_bearer_without_key:
  "map (Header_Values ''Authorization'')
       (snd (Reader (example_lib (Inr \<lparr>StatusCode = 200, Body = ''ok''\<rparr>)) Inr (NewClient [])
               (LiveContext ''background'')
               (zero_ReaderRequest\<lparr>Reader_URL := ''https://example.com''\<rparr>) []))
     = [ [''Bearer ''] ]
   \<and> map (Header_Values ''Authorization'')
       (snd (Search (example_lib (Inr \<lparr>StatusCode = 200, Body = ''ok''\<rparr>)) Inr (NewClient [])
               (LiveContext ''background'') (zero_SearchRequest\<lparr>Search_Query := ''jina''\<rparr>) []))
     = [ [''Bearer ''] ]
   \<and> map (Header_Values ''Authorization'')
       (snd (Classify (example_lib (Inr \<lparr>StatusCode = 200, Body = ''ok''\<rparr>)) Inr (NewClient [])
               (LiveContext ''background'') zero_ClassificationRequest []))
     = [ [] ]"
proof -
  have k: "APIKey (cfg (NewClient [])) = ''''"
    by (simp add: NewClient_def defaultConfig_def)
  have u: "Reader_URL (zero_ReaderRequest\<lparr>Reader_URL := ''https://example.com''\<rparr>) \<noteq> ''''"
    "Search_Query (zero_SearchRequest\<lparr>Search_Query := ''jina''\<rparr>) \<noteq> ''''"
    "LiveContext ''background'' \<noteq> NilContext"
    by simp_all
  have c: "map (Header_Values ''Authorization'')
       (snd (Classify (example_lib (Inr \<lparr>StatusCode = 200, Body = ''ok''\<rparr>)) Inr (NewClient [])
               (LiveContext ''background'') zero_ClassificationRequest []))
     = [ [] ]"
    by (simp add: Classify_def Let_def zero_ClassificationRequest_def ClassificationRequest_json_def
        NewRequestWithContext_def client_Do_def example_lib_def NewClient_def defaultConfig_def
        Header_Set_def Header_Values_def Decode_into_def example_parse_def token_bytes_def
        detail_bytes_def dq_def omitempty_string_def)
  show ?thesis
    using Reader_Authorization [OF u(1,3), of "example_lib (Inr \<lparr>StatusCode = 200, Body = ''ok''\<rparr>)"
            Inr "NewClient []"]
          Search_Authorization [OF u(2,3), of "example_lib (Inr \<lparr>StatusCode = 200, Body = ''ok''\<rparr>)"
            Inr "NewClient []"]
          c k
    by simp
qed

end
